theory Spec2Isabelle
  imports Complex_Main "HOL-Library.Sublist"
begin

section \<open>Data model of the plugin (src/src/main.ts, settings part of src/unnamed/part\_000)\<close>

text \<open>
  A JavaScript \<open>number\<close> is modelled as a \<open>real\<close>: timestamps and durations in
  milliseconds, pixel coordinates, opacities. Rounding of IEEE doubles is not modelled.
  The one place where the source can produce \<open>NaN\<close> from finite operands, the \<open>%\<close>
  operator with a zero divisor, is modelled by an \<open>option\<close>. Editor lines and columns
  are integers.
\<close>

text \<open>\<open>type Coordinates = { left: number; top: number }\<close>; the field \<open>top\<close> is primed
  because \<open>top\<close> is a constant of HOL.\<close>

record Coordinates =
  left :: real
  top' :: real

text \<open>The \<open>DOMRect\<close> of \<open>getBoundingClientRect\<close>: the fields the plugin reads.\<close>

record DOMRect = Coordinates +
  height :: real

text \<open>\<open>type Position = { line: number; ch: number }\<close>\<close>

record Position =
  line :: int
  ch :: int

text \<open>\<open>interface SmoothTypingSettings\<close> (part\_000, lines 200-206).\<close>

record SmoothTypingSettings =
  blinkSpeed :: real
  blinkDelay :: real
  characterMovementTime :: real
  cursorWidth :: real
  cursorColor :: "string option"

text \<open>
  The overlay element \<open>cursorElement\<close>: its \<open>style.display\<close> and the CSS custom
  properties the plugin sets (\<open>--cursor-color\<close>, \<open>--cursor-x1\<close>, \<open>--cursor-y1\<close>,
  \<open>--cursor-height\<close>, \<open>--cursor-width\<close>, \<open>--cursor-opacity\<close>). A property that
  was never set is \<open>None\<close>; lengths are kept as numbers of pixels.
\<close>

record CursorElement =
  display :: string
  cursor_color :: "string option"
  cursor_x1 :: "real option"
  cursor_y1 :: "real option"
  cursor_height :: "real option"
  cursor_width :: "real option"
  cursor_opacity :: "real option"

text \<open>
  The two callbacks the plugin hands to \<open>requestAnimationFrame\<close>:
  \<open>() => { this.blinkStartTime = Date.now(); }\<close> and \<open>this.updateCursor.bind(this)\<close>.
\<close>

datatype FrameCallback = ResetBlinkStart | UpdateCursor

text \<open>
  The fields of \<open>class SmoothTypingAnimation\<close> (the field \<open>isInWindow\<close> is never read
  or written by the code and is left out), together with the host's list of pending
  animation-frame callbacks, in the order they were requested.
\<close>

record SmoothTypingAnimation =
  settings :: SmoothTypingSettings
  cursorElement :: CursorElement
  prevCursorCoords :: Coordinates
  prevCursorPos :: "Position option"
  prevIconCoords :: "Coordinates option"
  prevFrameTime :: real
  blinkStartTime :: real
  remainingMoveTime :: real
  animationFrames :: "FrameCallback list"

definition requestAnimationFrame :: "FrameCallback \<Rightarrow> SmoothTypingAnimation \<Rightarrow> SmoothTypingAnimation" where
  "requestAnimationFrame cb s = s\<lparr>animationFrames := animationFrames s @ [cb]\<rparr>"

section \<open>changeCursorColour (main.ts, lines 22-28)\<close>

text \<open>\<open>bodyClassList\<close> is \<open>document.body.classList\<close>; the argument \<open>None\<close> is the default
  \<open>null\<close>.\<close>

definition changeCursorColour ::
  "string list \<Rightarrow> string option \<Rightarrow> SmoothTypingAnimation \<Rightarrow> SmoothTypingAnimation" where
  "changeCursorColour bodyClassList colour s =
     (let colour1 =
        (case colour of
           None \<Rightarrow>
             (let isLightTheme = (if ''theme-dark'' \<in> set bodyClassList then False else True)
              in if isLightTheme then ''#000000'' else ''#ffffff'')
         | Some c \<Rightarrow> c)
      in s\<lparr>cursorElement := (cursorElement s)\<lparr>cursor_color := Some colour1\<rparr>\<rparr>)"

section \<open>blinkCursor (main.ts, lines 31-47)\<close>

text \<open>
  The remainder operator \<open>%\<close> on numbers: the result has the sign of the dividend,
  \<open>a - b * trunc (a / b)\<close>; with a zero divisor the result is \<open>NaN\<close>, here \<open>None\<close>.
\<close>

definition trunc :: "real \<Rightarrow> int" where
  "trunc x = (if 0 \<le> x then \<lfloor>x\<rfloor> else \<lceil>x\<rceil>)"

definition js_rem :: "real \<Rightarrow> real \<Rightarrow> real option" where
  "js_rem a b = (if b = 0 then None else Some (a - b * of_int (trunc (a / b))))"

text \<open>\<open>x < y\<close> where \<open>x\<close> may be \<open>NaN\<close>: every comparison with \<open>NaN\<close> is false.\<close>

definition js_less :: "real option \<Rightarrow> real \<Rightarrow> bool" where
  "js_less x y = (case x of None \<Rightarrow> False | Some v \<Rightarrow> v < y)"

definition resetCursor :: "SmoothTypingAnimation \<Rightarrow> real \<times> SmoothTypingAnimation" where
  "resetCursor s = (1, requestAnimationFrame ResetBlinkStart s)"

text \<open>\<open>now\<close> is the value of \<open>Date.now()\<close> on line 42.\<close>

definition blinkCursor ::
  "real \<Rightarrow> bool \<Rightarrow> SmoothTypingAnimation \<Rightarrow> real \<times> SmoothTypingAnimation" where
  "blinkCursor now cursorPosChanged s =
     (if cursorPosChanged then resetCursor s
      else
        (let timePassed = now - blinkStartTime s - blinkDelay (settings s) * 1000;
             blinkMs = blinkSpeed (settings s) * 1000
         in if timePassed < 0 then (1, s)
            else if js_less (js_rem timePassed blinkMs) (blinkMs / 2) then (1, s)
            else (0, s)))"

section \<open>handleSmoothTyping (main.ts, lines 50-85)\<close>

text \<open>The local closure \<open>returnStatement\<close> (lines 51-55); its default argument is 0.\<close>

definition returnStatement ::
  "Position option \<Rightarrow> real \<Rightarrow> SmoothTypingAnimation \<Rightarrow> real \<times> SmoothTypingAnimation" where
  "returnStatement currCursorPos fractionTravelled s =
     (let s1 = (if fractionTravelled = 0 then s\<lparr>remainingMoveTime := 0\<rparr> else s)
      in (fractionTravelled, s1\<lparr>prevCursorPos := currCursorPos\<rparr>))"

text \<open>Lines 60-75: the classification of the transition, which only writes
  \<open>remainingMoveTime\<close>.\<close>

definition classifyMove ::
  "Position \<Rightarrow> Position \<Rightarrow> Coordinates \<Rightarrow> SmoothTypingAnimation \<Rightarrow> SmoothTypingAnimation" where
  "classifyMove prevPos currPos currCursorCoords s =
     (let charIncremented = (\<bar>ch prevPos - ch currPos\<bar> = 1);
          charMoved = (\<bar>ch prevPos - ch currPos\<bar> \<noteq> 0);
          lineMoved = (\<bar>line prevPos - line currPos\<bar> \<noteq> 0)
      in if (charMoved \<and> \<not> charIncremented) \<or> lineMoved then s\<lparr>remainingMoveTime := 0\<rparr>
         else if charIncremented \<and> \<not> lineMoved then
           (if top' currCursorCoords \<noteq> top' (prevCursorCoords s)
            then s\<lparr>remainingMoveTime := 0\<rparr>
            else s\<lparr>remainingMoveTime := characterMovementTime (settings s)\<rparr>)
         else s)"

definition handleSmoothTyping ::
  "Position option \<Rightarrow> Coordinates \<Rightarrow> real \<Rightarrow> SmoothTypingAnimation
     \<Rightarrow> real \<times> SmoothTypingAnimation" where
  "handleSmoothTyping currCursorPos currCursorCoords timeSinceLastFrame s =
     (case (currCursorPos, prevCursorPos s) of
        (Some currPos, Some prevPos) \<Rightarrow>
          (let s1 = classifyMove prevPos currPos currCursorCoords s
           in if remainingMoveTime s1 \<le> 0 then returnStatement currCursorPos 0 s1
              else
                (let fractionTravelled = min (timeSinceLastFrame / remainingMoveTime s1) 1;
                     s2 = s1\<lparr>remainingMoveTime :=
                                max 0 (remainingMoveTime s1 - timeSinceLastFrame)\<rparr>
                 in returnStatement currCursorPos fractionTravelled s2))
      | _ \<Rightarrow> returnStatement currCursorPos 0 s)"

section \<open>The frame loop: updateCursor (main.ts, lines 87-174)\<close>

text \<open>
  What the host shows to one tick. A focus node is modelled by the bounding rectangle
  of a range inside it: \<open>node a b\<close> is \<open>getBoundingClientRect()\<close> of the range that
  starts at offset \<open>a\<close> and ends at offset \<open>b\<close> of the node (the measurement is taken
  to succeed). Of the editor, the code reads the \<open>className\<close> of its \<open>containerEl\<close>
  (\<open>None\<close> when the element is missing) and \<open>getCursor()\<close>.
\<close>

record Selection =
  focusNode :: "(nat \<Rightarrow> nat \<Rightarrow> DOMRect) option"
  focusOffset :: nat

record ExtendedEditor =
  containerEl :: "string option"
  getCursor :: Position

text \<open>
  \<open>dateNow\<close> is \<open>Date.now()\<close> on line 95, \<open>dateNowBlink\<close> the one on line 42 and
  \<open>dateNowReset\<close> the one read by a blink-reset callback run in this frame;
  \<open>getSelection\<close> is \<open>activeWindow.getSelection()\<close> and \<open>activeEditor\<close> the editor of
  the active Markdown view, if any.
\<close>

record Frame =
  dateNow :: real
  dateNowBlink :: real
  dateNowReset :: real
  getSelection :: "Selection option"
  activeEditor :: "ExtendedEditor option"

definition getTimeSinceLastFrame ::
  "real \<Rightarrow> SmoothTypingAnimation \<Rightarrow> real \<times> SmoothTypingAnimation" where
  "getTimeSinceLastFrame currentTime s =
     (let timeSinceLastFrame = currentTime - prevFrameTime s
      in (timeSinceLastFrame, s\<lparr>prevFrameTime := currentTime\<rparr>))"

definition removeIcon :: "SmoothTypingAnimation \<Rightarrow> SmoothTypingAnimation" where
  "removeIcon s = s\<lparr>cursorElement := (cursorElement s)\<lparr>display := ''none''\<rparr>\<rparr>"

definition bringIconBack :: "SmoothTypingAnimation \<Rightarrow> SmoothTypingAnimation" where
  "bringIconBack s = s\<lparr>cursorElement := (cursorElement s)\<lparr>display := ''block''\<rparr>\<rparr>"

definition scheduleNextUpdate :: "SmoothTypingAnimation \<Rightarrow> SmoothTypingAnimation" where
  "scheduleNextUpdate s = requestAnimationFrame UpdateCursor s"

text \<open>
  The two guards of lines 114 and 115, in the order of the source: first the selection
  and its focus node, then the editor, its container and the marker \<open>cm-focused\<close> in
  the container's class name (\<open>includes\<close> is a substring test).
\<close>

datatype Sampled =
  NoSelection
  | NotFocused
  | Caret "nat \<Rightarrow> nat \<Rightarrow> DOMRect" nat Position

definition sample :: "Frame \<Rightarrow> Sampled" where
  "sample f =
     (case getSelection f of
        None \<Rightarrow> NoSelection
      | Some sel \<Rightarrow>
          (case focusNode sel of
             None \<Rightarrow> NoSelection
           | Some node \<Rightarrow>
               (case activeEditor f of
                  None \<Rightarrow> NotFocused
                | Some editor \<Rightarrow>
                    (case containerEl editor of
                       None \<Rightarrow> NotFocused
                     | Some className \<Rightarrow>
                         if \<not> sublist ''cm-focused'' className then NotFocused
                         else Caret node (focusOffset sel) (getCursor editor)))))"

text \<open>Lines 141-154: the icon moves by the fraction of its distance to the caret, or
  snaps to the caret.\<close>

definition moveIcon :: "real \<Rightarrow> Coordinates option \<Rightarrow> DOMRect \<Rightarrow> Coordinates" where
  "moveIcon iconMovementFraction prevIcon currCursorCoords =
     (case prevIcon of
        Some p \<Rightarrow>
          if iconMovementFraction \<noteq> 0 then
            (let movementLeft = iconMovementFraction * (left currCursorCoords - left p);
                 movementTop = iconMovementFraction * (top' currCursorCoords - top' p)
             in \<lparr>left = left p + movementLeft, top' = top' p + movementTop\<rparr>)
          else Coordinates.truncate currCursorCoords
      | None \<Rightarrow> Coordinates.truncate currCursorCoords)"

text \<open>Lines 157-163: the properties written to the overlay element.\<close>

definition render ::
  "Coordinates \<Rightarrow> DOMRect \<Rightarrow> real \<Rightarrow> SmoothTypingAnimation \<Rightarrow> SmoothTypingAnimation" where
  "render currIconCoords currCursorCoords blinkOpacity s =
     s\<lparr>cursorElement := (cursorElement s)
        \<lparr>cursor_x1 := Some (left currIconCoords),
         cursor_y1 := Some (top' currIconCoords),
         cursor_height := Some (height currCursorCoords),
         cursor_width := Some (cursorWidth (settings s)),
         cursor_opacity := Some blinkOpacity\<rparr>\<rparr>"

text \<open>
  One tick. Next to the new state the model returns the value of the local
  \<open>iconMovementFraction\<close> (\<open>None\<close> when the tick returns before computing it), so that
  statements about a run of frames can name it. The \<open>console.log\<close> of line 150 writes
  none of the fields and is left out; the test \<open>if (currIconCoords)\<close> of line 157 is
  always true, both branches before it assigning an object.
\<close>

definition updateCursor :: "Frame \<Rightarrow> SmoothTypingAnimation \<Rightarrow> real option \<times> SmoothTypingAnimation" where
  "updateCursor f s0 =
     (let (timeSinceLastFrame, s) = getTimeSinceLastFrame (dateNow f) s0
      in case sample f of
           NoSelection \<Rightarrow> (None, scheduleNextUpdate s)
         | NotFocused \<Rightarrow> (None, scheduleNextUpdate (removeIcon s))
         | Caret node offset currCursorPos \<Rightarrow>
             (let s1 = bringIconBack s;
                  currCursorCoords = node offset (if offset = 0 then 1 else offset);
                  cursorCoordinatesChanged =
                    (left (prevCursorCoords s1) \<noteq> left currCursorCoords
                     \<or> top' (prevCursorCoords s1) \<noteq> top' currCursorCoords);
                  (blinkOpacity, s2) = blinkCursor (dateNowBlink f) cursorCoordinatesChanged s1;
                  (iconMovementFraction, s3) =
                    handleSmoothTyping (Some currCursorPos) (Coordinates.truncate currCursorCoords)
                      timeSinceLastFrame s2;
                  currIconCoords = moveIcon iconMovementFraction (prevIconCoords s3) currCursorCoords;
                  s4 = render currIconCoords currCursorCoords blinkOpacity s3;
                  s5 = s4\<lparr>prevCursorCoords :=
                            \<lparr>left = left currCursorCoords, top' = top' currCursorCoords\<rparr>,
                          prevIconCoords := Some currIconCoords\<rparr>
              in (Some iconMovementFraction, scheduleNextUpdate s5)))"

text \<open>A run of consecutive ticks, with the fraction of each.\<close>

fun ticks :: "Frame list \<Rightarrow> SmoothTypingAnimation \<Rightarrow> real option list \<times> SmoothTypingAnimation" where
  "ticks [] s = ([], s)"
| "ticks (f # fs) s =
     (let (r, s1) = updateCursor f s; (rs, s2) = ticks fs s1 in (r # rs, s2))"

text \<open>
  The host's animation frame: the callbacks that were pending when the frame starts
  run in the order they were requested; a callback requested meanwhile waits for the
  next frame.
\<close>

fun runCallback :: "Frame \<Rightarrow> FrameCallback \<Rightarrow> SmoothTypingAnimation \<Rightarrow> SmoothTypingAnimation" where
  "runCallback f ResetBlinkStart s = s\<lparr>blinkStartTime := dateNowReset f\<rparr>"
| "runCallback f UpdateCursor s = snd (updateCursor f s)"

definition animationFrame :: "Frame \<Rightarrow> SmoothTypingAnimation \<Rightarrow> SmoothTypingAnimation" where
  "animationFrame f s = fold (runCallback f) (animationFrames s) (s\<lparr>animationFrames := []\<rparr>)"

section \<open>Settings and onload (part\_000, lines 200-213; main.ts, lines 176-192)\<close>

definition DEFAULT_SETTINGS :: SmoothTypingSettings where
  "DEFAULT_SETTINGS =
     \<lparr>blinkSpeed = 1.2, blinkDelay = 0, characterMovementTime = 80, cursorWidth = 1,
      cursorColor = Some ''#ffffff''\<rparr>"

text \<open>
  The object \<open>loadData()\<close> resolves to: each key of the settings may be missing
  (\<open>None\<close>); the key \<open>cursorColor\<close> may also be stored with the value \<open>null\<close>
  (\<open>Some None\<close>), which is what the reset button of the settings tab saves.
\<close>

record StoredData =
  stored_blinkSpeed :: "real option"
  stored_blinkDelay :: "real option"
  stored_characterMovementTime :: "real option"
  stored_cursorWidth :: "real option"
  stored_cursorColor :: "string option option"

text \<open>\<open>Object.assign({}, defaults, data)\<close>: a source that is \<open>null\<close> is skipped, and every
  key the source has overwrites the default.\<close>

definition Object_assign :: "SmoothTypingSettings \<Rightarrow> StoredData option \<Rightarrow> SmoothTypingSettings" where
  "Object_assign defaults data =
     (case data of
        None \<Rightarrow> defaults
      | Some d \<Rightarrow>
          \<lparr>blinkSpeed = (case stored_blinkSpeed d of None \<Rightarrow> blinkSpeed defaults | Some v \<Rightarrow> v),
           blinkDelay = (case stored_blinkDelay d of None \<Rightarrow> blinkDelay defaults | Some v \<Rightarrow> v),
           characterMovementTime =
             (case stored_characterMovementTime d of
                None \<Rightarrow> characterMovementTime defaults | Some v \<Rightarrow> v),
           cursorWidth = (case stored_cursorWidth d of None \<Rightarrow> cursorWidth defaults | Some v \<Rightarrow> v),
           cursorColor = (case stored_cursorColor d of None \<Rightarrow> cursorColor defaults | Some v \<Rightarrow> v)\<rparr>)"

definition loadSettings :: "StoredData option \<Rightarrow> SmoothTypingAnimation \<Rightarrow> SmoothTypingAnimation" where
  "loadSettings loadData s = s\<lparr>settings := Object_assign DEFAULT_SETTINGS loadData\<rparr>"

text \<open>\<open>document.body.createSpan({ cls: "custom-cursor" })\<close>: a new element, nothing set.\<close>

definition createSpan :: CursorElement where
  "createSpan =
     \<lparr>display = [], cursor_color = None, cursor_x1 = None, cursor_y1 = None,
      cursor_height = None, cursor_width = None, cursor_opacity = None\<rparr>"

text \<open>
  \<open>onload\<close>: \<open>loadData\<close> is what the host storage resolves to, \<open>bodyClassList\<close> the
  classes of \<open>document.body\<close>, \<open>f\<close> what the host shows to the first tick, which
  \<open>onload\<close> runs itself (line 187). The settings tab it registers is user interface only.
\<close>

definition onload ::
  "StoredData option \<Rightarrow> string list \<Rightarrow> Frame \<Rightarrow> SmoothTypingAnimation \<Rightarrow> SmoothTypingAnimation" where
  "onload loadData bodyClassList f s =
     (let s1 = loadSettings loadData s;
          s2 = s1\<lparr>cursorElement := createSpan\<rparr>;
          s3 = changeCursorColour bodyClassList None s2;
          s4 = requestAnimationFrame ResetBlinkStart s3
      in snd (updateCursor f s4))"

section \<open>Auxiliary notions for the statements\<close>

text \<open>
  The object as the field initialisers of the class leave it (main.ts, lines 13-20), at
  time \<open>now\<close>; \<open>settings\<close> and \<open>cursorElement\<close>, which \<open>onload\<close> assigns, hold
  the default settings and a new span. It is the start of the examples.
\<close>

definition newPlugin :: "real \<Rightarrow> SmoothTypingAnimation" where
  "newPlugin now =
     \<lparr>settings = DEFAULT_SETTINGS, cursorElement = createSpan,
      prevCursorCoords = \<lparr>left = 0, top' = 0\<rparr>,
      prevCursorPos = Some \<lparr>line = 0, ch = 0\<rparr>,
      prevIconCoords = Some \<lparr>left = 0, top' = 0\<rparr>,
      prevFrameTime = now, blinkStartTime = now, remainingMoveTime = 0,
      animationFrames = []\<rparr>"

text \<open>
  The remaining move time once the transition is classified: what lines 60-75 leave in
  \<open>remainingMoveTime\<close> when both positions exist, and 0 when one is absent (the call
  then returns on line 58 and clears it).
\<close>

definition afterClassification ::
  "Position option \<Rightarrow> Coordinates \<Rightarrow> SmoothTypingAnimation \<Rightarrow> real" where
  "afterClassification currCursorPos currCursorCoords s =
     (case (currCursorPos, prevCursorPos s) of
        (Some currPos, Some prevPos) \<Rightarrow>
          remainingMoveTime (classifyMove prevPos currPos currCursorCoords s)
      | _ \<Rightarrow> 0)"

text \<open>
  The blink opacity in the words of the specification (section 4.3), with the real
  remainder \<open>elapsed - period * \<lfloor>elapsed / period\<rfloor>\<close> for \<open>elapsed mod period\<close>. It is
  compared with \<open>blinkCursor\<close>, which is the code.
\<close>

definition blinkOpacitySpec :: "real \<Rightarrow> real \<Rightarrow> real \<Rightarrow> real \<Rightarrow> bool \<Rightarrow> real" where
  "blinkOpacitySpec now blinkResetTimestamp blinkDelaySeconds blinkPeriodSeconds positionChanged =
     (if positionChanged then 1
      else
        (let elapsed = now - blinkResetTimestamp - blinkDelaySeconds * 1000;
             period = blinkPeriodSeconds * 1000
         in if elapsed < 0 then 1
            else if elapsed - period * of_int \<lfloor>elapsed / period\<rfloor> < period / 2 then 1
            else 0))"

text \<open>
  Two kinds of frames for the examples and scenarios, all clocks of the frame reading
  \<open>t\<close>. In \<open>caretAt t pos rect\<close> the editor has the focus, its caret is at \<open>pos\<close> and
  the focus node measures \<open>rect\<close>; in \<open>unfocusedAt t rect\<close> the selection still has a
  focus node measuring \<open>rect\<close>, and no editor is active.
\<close>

definition caretAt :: "real \<Rightarrow> Position \<Rightarrow> DOMRect \<Rightarrow> Frame" where
  "caretAt t pos rect =
     \<lparr>dateNow = t, dateNowBlink = t, dateNowReset = t,
      getSelection = Some \<lparr>focusNode = Some (\<lambda>a b. rect), focusOffset = 3\<rparr>,
      activeEditor = Some \<lparr>containerEl = Some ''cm-editor cm-focused'', getCursor = pos\<rparr>\<rparr>"

definition unfocusedAt :: "real \<Rightarrow> DOMRect \<Rightarrow> Frame" where
  "unfocusedAt t rect =
     \<lparr>dateNow = t, dateNowBlink = t, dateNowReset = t,
      getSelection = Some \<lparr>focusNode = Some (\<lambda>a b. rect), focusOffset = 3\<rparr>,
      activeEditor = None\<rparr>"

section \<open>The smooth-move engine\<close>

lemma returnStatement_zero:
  "returnStatement p 0 s = (0, s\<lparr>remainingMoveTime := 0, prevCursorPos := p\<rparr>)"
  by (simp add: returnStatement_def)

lemma handleSmoothTyping_absent:
  "currCursorPos = None \<or> prevCursorPos s = None \<Longrightarrow>
   handleSmoothTyping currCursorPos cc t s =
     (0, s\<lparr>remainingMoveTime := 0, prevCursorPos := currCursorPos\<rparr>)"
  by (auto simp: handleSmoothTyping_def returnStatement_zero split: option.splits)

lemma classifyMove_sharp:
  "line p \<noteq> line c \<or> (\<bar>ch p - ch c\<bar> \<noteq> 0 \<and> \<bar>ch p - ch c\<bar> \<noteq> 1) \<Longrightarrow>
   classifyMove p c cc s = s\<lparr>remainingMoveTime := 0\<rparr>"
  by (auto simp: classifyMove_def Let_def)

lemma classifyMove_wrap:
  "\<bar>ch p - ch c\<bar> = 1 \<Longrightarrow> line p = line c \<Longrightarrow> top' cc \<noteq> top' (prevCursorCoords s) \<Longrightarrow>
   classifyMove p c cc s = s\<lparr>remainingMoveTime := 0\<rparr>"
  by (auto simp: classifyMove_def Let_def)

lemma classifyMove_smooth:
  "\<bar>ch p - ch c\<bar> = 1 \<Longrightarrow> line p = line c \<Longrightarrow> top' cc = top' (prevCursorCoords s) \<Longrightarrow>
   classifyMove p c cc s = s\<lparr>remainingMoveTime := characterMovementTime (settings s)\<rparr>"
  by (auto simp: classifyMove_def Let_def)

lemma classifyMove_still:
  "ch p = ch c \<Longrightarrow> line p = line c \<Longrightarrow> classifyMove p c cc s = s"
  by (auto simp: classifyMove_def Let_def)

text \<open>With both positions present the call is a three-way split on the classified
  remaining time and on a zero frame time.\<close>

lemma handleSmoothTyping_present:
  "prevCursorPos s = Some p \<Longrightarrow>
   handleSmoothTyping (Some c) cc t s =
     (let s1 = classifyMove p c cc s; r = remainingMoveTime s1
      in if r \<le> 0 then (0, s1\<lparr>remainingMoveTime := 0, prevCursorPos := Some c\<rparr>)
         else if t = 0 then (0, s1\<lparr>remainingMoveTime := 0, prevCursorPos := Some c\<rparr>)
         else (min (t / r) 1,
               s1\<lparr>remainingMoveTime := max 0 (r - t), prevCursorPos := Some c\<rparr>))"
  by (auto simp: handleSmoothTyping_def returnStatement_def Let_def min_def)

text \<open>
  C1, as amended. In every call \<open>prevCursorPos\<close> becomes the current position. When the
  remaining move time after classification is at most 0 the fraction is 0. When it is a
  positive \<open>r\<close>, the fraction is \<open>min (t / r) 1\<close> and the new remaining move time is
  \<open>max 0 (r - t)\<close> if the frame time \<open>t\<close> is not 0, and 0 if \<open>t = 0\<close>: the fraction
  is then 0, and \<open>returnStatement\<close> clears the remaining time on a zero fraction.
\<close>

theorem handleSmoothTyping_output:
  "prevCursorPos (snd (handleSmoothTyping cp cc t s)) = cp
   \<and> (afterClassification cp cc s \<le> 0 \<longrightarrow> fst (handleSmoothTyping cp cc t s) = 0)
   \<and> (0 < afterClassification cp cc s \<longrightarrow>
        fst (handleSmoothTyping cp cc t s) = min (t / afterClassification cp cc s) 1
        \<and> remainingMoveTime (snd (handleSmoothTyping cp cc t s)) =
            (if t = 0 then 0 else max 0 (afterClassification cp cc s - t)))"
proof (cases "cp = None \<or> prevCursorPos s = None")
  case True
  then have "afterClassification cp cc s = 0"
    by (auto simp: afterClassification_def split: option.splits)
  then show ?thesis using handleSmoothTyping_absent [OF True, of cc t] by simp
next
  case False
  then obtain c p where cp: "cp = Some c" "prevCursorPos s = Some p" by auto
  then have a: "afterClassification cp cc s = remainingMoveTime (classifyMove p c cc s)"
    by (simp add: afterClassification_def)
  show ?thesis
    unfolding a using cp by (simp add: handleSmoothTyping_present Let_def)
qed

text \<open>A smooth step of one column from the initial object, 16 ms after the last frame:
  the classified time is 80, the fraction 16/80 and 64 ms remain.\<close>

theorem handleSmoothTyping_output_witness:
  "afterClassification (Some \<lparr>line = 0, ch = 1\<rparr>) \<lparr>left = 10, top' = 0\<rparr> (newPlugin 0) = 80
   \<and> fst (handleSmoothTyping (Some \<lparr>line = 0, ch = 1\<rparr>) \<lparr>left = 10, top' = 0\<rparr> 16 (newPlugin 0))
       = 1 / 5
   \<and> remainingMoveTime
        (snd (handleSmoothTyping (Some \<lparr>line = 0, ch = 1\<rparr>) \<lparr>left = 10, top' = 0\<rparr> 16 (newPlugin 0)))
       = 64
   \<and> prevCursorPos
        (snd (handleSmoothTyping (Some \<lparr>line = 0, ch = 1\<rparr>) \<lparr>left = 10, top' = 0\<rparr> 16 (newPlugin 0)))
       = Some \<lparr>line = 0, ch = 1\<rparr>"
proof -
  have a: "afterClassification (Some \<lparr>line = 0, ch = 1\<rparr>) \<lparr>left = 10, top' = 0\<rparr> (newPlugin 0) = 80"
    by (simp add: afterClassification_def classifyMove_def newPlugin_def DEFAULT_SETTINGS_def)
  show ?thesis
    using handleSmoothTyping_output
      [of "Some \<lparr>line = 0, ch = 1\<rparr>" "\<lparr>left = 10, top' = 0\<rparr>" 16 "newPlugin 0"]
    unfolding a by simp
qed

text \<open>
  C1 as stated fails when the frame time is 0: on the same smooth step with
  \<open>timeSinceLastFrame = 0\<close> the classified time is 80, so the claim gives
  \<open>max 0 (80 - 0) = 80\<close> for the new remaining time, and the code leaves 0.
\<close>

theorem handleSmoothTyping_zero_frame_counterexample:
  "0 < afterClassification (Some \<lparr>line = 0, ch = 1\<rparr>) \<lparr>left = 10, top' = 0\<rparr> (newPlugin 0)
   \<and> remainingMoveTime
        (snd (handleSmoothTyping (Some \<lparr>line = 0, ch = 1\<rparr>) \<lparr>left = 10, top' = 0\<rparr> 0 (newPlugin 0)))
       = 0
   \<and> max 0 (afterClassification (Some \<lparr>line = 0, ch = 1\<rparr>) \<lparr>left = 10, top' = 0\<rparr> (newPlugin 0) - 0)
       = 80"
  by (simp add: afterClassification_def classifyMove_def newPlugin_def handleSmoothTyping_def
      returnStatement_def DEFAULT_SETTINGS_def Let_def)

text \<open>
  C2. When the current or the previous grid position is absent, when both are present
  and the line changed or the column delta is neither 0 nor 1, and when the column delta
  is 1 on the same line and the vertical pixel coordinate changed, the call returns the
  fraction 0 and leaves \<open>remainingMoveTime = 0\<close>; all it changes besides is
  \<open>prevCursorPos\<close>.
\<close>

theorem handleSmoothTyping_sharp_clears:
  assumes "currCursorPos = None \<or> prevCursorPos s = None
     \<or> (\<exists>c p. currCursorPos = Some c \<and> prevCursorPos s = Some p \<and>
           (line p \<noteq> line c
            \<or> (\<bar>ch p - ch c\<bar> \<noteq> 0 \<and> \<bar>ch p - ch c\<bar> \<noteq> 1)
            \<or> (\<bar>ch p - ch c\<bar> = 1 \<and> line p = line c
                \<and> top' cc \<noteq> top' (prevCursorCoords s))))"
  shows "handleSmoothTyping currCursorPos cc t s =
           (0, s\<lparr>remainingMoveTime := 0, prevCursorPos := currCursorPos\<rparr>)"
proof (cases "currCursorPos = None \<or> prevCursorPos s = None")
  case True
  then show ?thesis by (rule handleSmoothTyping_absent)
next
  case False
  with assms obtain c p where cp: "currCursorPos = Some c" "prevCursorPos s = Some p"
    and k: "line p \<noteq> line c \<or> (\<bar>ch p - ch c\<bar> \<noteq> 0 \<and> \<bar>ch p - ch c\<bar> \<noteq> 1)
            \<or> (\<bar>ch p - ch c\<bar> = 1 \<and> line p = line c \<and> top' cc \<noteq> top' (prevCursorCoords s))"
    by blast
  from k have "classifyMove p c cc s = s\<lparr>remainingMoveTime := 0\<rparr>"
    using classifyMove_sharp [of p c cc s] classifyMove_wrap [of p c cc s] by blast
  then show ?thesis
    using cp by (simp add: handleSmoothTyping_present)
qed

text \<open>A move in flight with 64 ms left is cancelled by a jump of three columns, by a
  step of one column that wraps to the next visual row, by the loss of the caret, and by
  a change of line.\<close>

theorem handleSmoothTyping_sharp_clears_witness:
  "handleSmoothTyping (Some \<lparr>line = 0, ch = 3\<rparr>) \<lparr>left = 30, top' = 0\<rparr> 16
       ((newPlugin 0)\<lparr>remainingMoveTime := 64\<rparr>)
     = (0, (newPlugin 0)\<lparr>remainingMoveTime := 0, prevCursorPos := Some \<lparr>line = 0, ch = 3\<rparr>\<rparr>)
   \<and> handleSmoothTyping (Some \<lparr>line = 0, ch = 1\<rparr>) \<lparr>left = 0, top' = 20\<rparr> 16
       ((newPlugin 0)\<lparr>remainingMoveTime := 64\<rparr>)
     = (0, (newPlugin 0)\<lparr>remainingMoveTime := 0, prevCursorPos := Some \<lparr>line = 0, ch = 1\<rparr>\<rparr>)
   \<and> handleSmoothTyping None \<lparr>left = 0, top' = 0\<rparr> 16 ((newPlugin 0)\<lparr>remainingMoveTime := 64\<rparr>)
     = (0, (newPlugin 0)\<lparr>remainingMoveTime := 0, prevCursorPos := None\<rparr>)
   \<and> handleSmoothTyping (Some \<lparr>line = 1, ch = 0\<rparr>) \<lparr>left = 0, top' = 20\<rparr> 16
       ((newPlugin 0)\<lparr>remainingMoveTime := 64\<rparr>)
     = (0, (newPlugin 0)\<lparr>remainingMoveTime := 0, prevCursorPos := Some \<lparr>line = 1, ch = 0\<rparr>\<rparr>)"
proof -
  let ?s = "(newPlugin 0)\<lparr>remainingMoveTime := 64\<rparr>"
  have 4: "handleSmoothTyping (Some \<lparr>line = 1, ch = 0\<rparr>) \<lparr>left = 0, top' = 20\<rparr> 16 ?s
             = (0, ?s\<lparr>remainingMoveTime := 0, prevCursorPos := Some \<lparr>line = 1, ch = 0\<rparr>\<rparr>)"
    by (rule handleSmoothTyping_sharp_clears) (simp add: newPlugin_def)
  have 1: "handleSmoothTyping (Some \<lparr>line = 0, ch = 3\<rparr>) \<lparr>left = 30, top' = 0\<rparr> 16 ?s
             = (0, ?s\<lparr>remainingMoveTime := 0, prevCursorPos := Some \<lparr>line = 0, ch = 3\<rparr>\<rparr>)"
    by (rule handleSmoothTyping_sharp_clears) (simp add: newPlugin_def)
  have 2: "handleSmoothTyping (Some \<lparr>line = 0, ch = 1\<rparr>) \<lparr>left = 0, top' = 20\<rparr> 16 ?s
             = (0, ?s\<lparr>remainingMoveTime := 0, prevCursorPos := Some \<lparr>line = 0, ch = 1\<rparr>\<rparr>)"
    by (rule handleSmoothTyping_sharp_clears) (simp add: newPlugin_def)
  have 3: "handleSmoothTyping None \<lparr>left = 0, top' = 0\<rparr> 16 ?s
             = (0, ?s\<lparr>remainingMoveTime := 0, prevCursorPos := None\<rparr>)"
    by (rule handleSmoothTyping_sharp_clears) simp
  show ?thesis using 1 2 3 4 by simp
qed

text \<open>
  C5, as amended. The returned fraction is at most 1 in every call, and it is at least 0
  whenever \<open>timeSinceLastFrame\<close> is not negative.
\<close>

theorem fraction_bounds:
  "fst (handleSmoothTyping cp cc t s) \<le> 1
   \<and> (0 \<le> t \<longrightarrow> 0 \<le> fst (handleSmoothTyping cp cc t s))"
proof (cases "cp = None \<or> prevCursorPos s = None")
  case True
  show ?thesis using handleSmoothTyping_absent [OF True, of cc t] by simp
next
  case False
  then obtain c p where cp: "cp = Some c" "prevCursorPos s = Some p" by auto
  show ?thesis
    using cp by (simp add: handleSmoothTyping_present Let_def)
qed

theorem fraction_bounds_witness:
  "(0::real) \<le> 100
   \<and> 0 \<le> fst (handleSmoothTyping (Some \<lparr>line = 0, ch = 1\<rparr>) \<lparr>left = 10, top' = 0\<rparr> 100 (newPlugin 0))
   \<and> fst (handleSmoothTyping (Some \<lparr>line = 0, ch = 1\<rparr>) \<lparr>left = 10, top' = 0\<rparr> 100 (newPlugin 0)) \<le> 1"
  using fraction_bounds [of "Some \<lparr>line = 0, ch = 1\<rparr>" "\<lparr>left = 10, top' = 0\<rparr>" 100 "newPlugin 0"]
  by simp

text \<open>
  C5 as stated fails for a negative frame time, which \<open>Date.now()\<close> produces when the
  clock is set back: on a smooth step from the initial object with
  \<open>timeSinceLastFrame = -16\<close> the fraction is \<open>-16 / 80\<close>.
\<close>

theorem fraction_negative_counterexample:
  "fst (handleSmoothTyping (Some \<lparr>line = 0, ch = 1\<rparr>) \<lparr>left = 10, top' = 0\<rparr> (- 16) (newPlugin 0))
     = - (1 / 5)"
  by (simp add: classifyMove_def newPlugin_def handleSmoothTyping_def
      returnStatement_def DEFAULT_SETTINGS_def Let_def)

lemma handleSmoothTyping_nonneg:
  "0 \<le> remainingMoveTime (snd (handleSmoothTyping cp cc t s))"
proof (cases "cp = None \<or> prevCursorPos s = None")
  case True
  show ?thesis using handleSmoothTyping_absent [OF True, of cc t] by simp
next
  case False
  then obtain c p where cp: "cp = Some c" "prevCursorPos s = Some p" by auto
  show ?thesis
    using cp by (simp add: handleSmoothTyping_present Let_def)
qed

text \<open>
  C3, as amended. On a frame whose column delta is exactly 1, on the same line and with
  an unchanged vertical pixel coordinate, the classification sets the remaining move
  time to the configured \<open>characterMovementTime\<close>, whatever was left of a move in
  flight; when that time and the frame time \<open>t\<close> are positive, the call leaves
  \<open>max 0 (characterMovementTime - t)\<close>. On a frame with no positional change and a
  positive frame time, the remaining move time \<open>r \<ge> 0\<close> becomes \<open>max 0 (r - t)\<close>
  and does not increase. After every call it is at least 0.
\<close>

theorem remainingMoveTime_reset_and_decay:
  assumes "prevCursorPos s = Some p" and "line p = line c"
  shows "(\<bar>ch p - ch c\<bar> = 1 \<and> top' cc = top' (prevCursorCoords s) \<longrightarrow>
            afterClassification (Some c) cc s = characterMovementTime (settings s)
            \<and> (0 < characterMovementTime (settings s) \<and> 0 < t \<longrightarrow>
                 remainingMoveTime (snd (handleSmoothTyping (Some c) cc t s))
                   = max 0 (characterMovementTime (settings s) - t)))
         \<and> (ch p = ch c \<and> 0 < t \<and> 0 \<le> remainingMoveTime s \<longrightarrow>
              remainingMoveTime (snd (handleSmoothTyping (Some c) cc t s))
                = max 0 (remainingMoveTime s - t)
              \<and> remainingMoveTime (snd (handleSmoothTyping (Some c) cc t s))
                  \<le> remainingMoveTime s)
         \<and> 0 \<le> remainingMoveTime (snd (handleSmoothTyping (Some c) cc t s))"
proof (intro conjI impI)
  assume q: "\<bar>ch p - ch c\<bar> = 1 \<and> top' cc = top' (prevCursorCoords s)"
  with assms have k:
    "classifyMove p c cc s = s\<lparr>remainingMoveTime := characterMovementTime (settings s)\<rparr>"
    by (simp add: classifyMove_smooth)
  show "afterClassification (Some c) cc s = characterMovementTime (settings s)"
    using assms k by (simp add: afterClassification_def)
  assume "0 < characterMovementTime (settings s) \<and> 0 < t"
  then show "remainingMoveTime (snd (handleSmoothTyping (Some c) cc t s))
                   = max 0 (characterMovementTime (settings s) - t)"
    using assms k by (simp add: handleSmoothTyping_present Let_def)
next
  assume q: "ch p = ch c \<and> 0 < t \<and> 0 \<le> remainingMoveTime s"
  with assms have k: "classifyMove p c cc s = s" by (simp add: classifyMove_still)
  show "remainingMoveTime (snd (handleSmoothTyping (Some c) cc t s))
          = max 0 (remainingMoveTime s - t)"
    using assms k q by (simp add: handleSmoothTyping_present Let_def)
  show "remainingMoveTime (snd (handleSmoothTyping (Some c) cc t s)) \<le> remainingMoveTime s"
    using assms k q by (simp add: handleSmoothTyping_present Let_def)
next
  show "0 \<le> remainingMoveTime (snd (handleSmoothTyping (Some c) cc t s))"
    by (rule handleSmoothTyping_nonneg)
qed

text \<open>With 64 ms of an earlier move left, a further step of one column 16 ms later
  restarts from 80 (not 144) and leaves 64; a frame without movement leaves 48.\<close>

theorem remainingMoveTime_reset_and_decay_witness:
  "afterClassification (Some \<lparr>line = 0, ch = 1\<rparr>) \<lparr>left = 10, top' = 0\<rparr>
       ((newPlugin 0)\<lparr>remainingMoveTime := 64\<rparr>) = 80
   \<and> remainingMoveTime (snd (handleSmoothTyping (Some \<lparr>line = 0, ch = 1\<rparr>) \<lparr>left = 10, top' = 0\<rparr> 16
       ((newPlugin 0)\<lparr>remainingMoveTime := 64\<rparr>))) = 64
   \<and> remainingMoveTime (snd (handleSmoothTyping (Some \<lparr>line = 0, ch = 0\<rparr>) \<lparr>left = 0, top' = 0\<rparr> 16
       ((newPlugin 0)\<lparr>remainingMoveTime := 64\<rparr>))) = 48"
proof -
  let ?s = "(newPlugin 0)\<lparr>remainingMoveTime := 64\<rparr>"
  have p: "prevCursorPos ?s = Some \<lparr>line = 0, ch = 0\<rparr>" by (simp add: newPlugin_def)
  have a: "line \<lparr>line = 0, ch = 0\<rparr> = line \<lparr>line = 0, ch = 1\<rparr>"
    and b: "line \<lparr>line = 0, ch = 0\<rparr> = line \<lparr>line = 0, ch = 0\<rparr>" by simp_all
  show ?thesis
    using remainingMoveTime_reset_and_decay [OF p a, of "\<lparr>left = 10, top' = 0\<rparr>" 16]
      remainingMoveTime_reset_and_decay [OF p b, of "\<lparr>left = 0, top' = 0\<rparr>" 16]
    by (simp add: newPlugin_def DEFAULT_SETTINGS_def)
qed

text \<open>
  C3 as stated fails on frames without movement whose frame time is not positive. With
  64 ms left and \<open>timeSinceLastFrame = 0\<close> the code leaves 0, where a decrease by the
  frame time leaves \<open>max 0 (64 - 0) = 64\<close>; with \<open>timeSinceLastFrame = -16\<close> the
  remaining time grows to 80.
\<close>

theorem remainingMoveTime_decay_counterexample:
  "remainingMoveTime (snd (handleSmoothTyping (Some \<lparr>line = 0, ch = 0\<rparr>) \<lparr>left = 0, top' = 0\<rparr> 0
       ((newPlugin 0)\<lparr>remainingMoveTime := 64\<rparr>))) = 0
   \<and> max 0 (remainingMoveTime ((newPlugin 0)\<lparr>remainingMoveTime := 64\<rparr>) - 0) = 64
   \<and> remainingMoveTime (snd (handleSmoothTyping (Some \<lparr>line = 0, ch = 0\<rparr>) \<lparr>left = 0, top' = 0\<rparr> (- 16)
       ((newPlugin 0)\<lparr>remainingMoveTime := 64\<rparr>))) = 80"
  by (simp add: classifyMove_def newPlugin_def handleSmoothTyping_def
      returnStatement_def DEFAULT_SETTINGS_def Let_def)

section \<open>The blink engine\<close>

lemma js_rem_floor:
  "0 \<le> a \<Longrightarrow> 0 < b \<Longrightarrow> js_rem a b = Some (a - b * of_int \<lfloor>a / b\<rfloor>)"
  by (simp add: js_rem_def trunc_def)

lemma blinkCursor_refines:
  "0 < blinkSpeed (settings s) \<Longrightarrow>
   fst (blinkCursor now changed s) =
     blinkOpacitySpec now (blinkStartTime s) (blinkDelay (settings s)) (blinkSpeed (settings s))
       changed"
  by (simp add: blinkCursor_def blinkOpacitySpec_def resetCursor_def Let_def js_rem_floor
      js_less_def)

lemma blinkCursor_binary: "fst (blinkCursor now changed s) \<in> {0, 1}"
  by (simp add: blinkCursor_def resetCursor_def Let_def)

lemma blinkCursor_delay:
  "now - blinkStartTime s < blinkDelay (settings s) * 1000 \<Longrightarrow>
   fst (blinkCursor now changed s) = 1"
  by (simp add: blinkCursor_def resetCursor_def Let_def)

lemma blinkCursor_snd:
  "snd (blinkCursor now changed s)
     = (if changed then requestAnimationFrame ResetBlinkStart s else s)"
  by (simp add: blinkCursor_def resetCursor_def Let_def)

lemma floor_in_period:
  fixes e P :: real
  assumes "0 < P" "of_nat k * P \<le> e" "e < of_nat k * P + P"
  shows "\<lfloor>e / P\<rfloor> = int k"
proof (rule floor_unique)
  show "of_int (int k) \<le> e / P" using assms by (simp add: le_divide_eq)
  show "e / P < of_int (int k) + 1" using assms by (simp add: divide_less_eq algebra_simps)
qed

lemma square_wave_on:
  fixes e P :: real
  assumes "0 < P" "of_nat k * P \<le> e" "e < of_nat k * P + P / 2"
  shows "e - P * of_int \<lfloor>e / P\<rfloor> < P / 2"
proof -
  have "\<lfloor>e / P\<rfloor> = int k" using assms by (intro floor_in_period) auto
  then show ?thesis using assms by (simp add: algebra_simps)
qed

lemma square_wave_off:
  fixes e P :: real
  assumes "0 < P" "of_nat k * P + P / 2 \<le> e" "e < of_nat k * P + P"
  shows "\<not> e - P * of_int \<lfloor>e / P\<rfloor> < P / 2"
proof -
  have "\<lfloor>e / P\<rfloor> = int k" using assms by (intro floor_in_period) auto
  then show ?thesis using assms by (simp add: algebra_simps)
qed

section \<open>The frame loop\<close>

lemma sample_caretAt: "sample (caretAt t pos rect) = Caret (\<lambda>a b. rect) 3 pos"
  by (simp add: sample_def caretAt_def sublist_Cons_right)

lemma sample_unfocusedAt: "sample (unfocusedAt t rect) = NotFocused"
  by (simp add: sample_def unfocusedAt_def)

lemma classifyMove_frame:
  "classifyMove p c cc s = s\<lparr>remainingMoveTime := remainingMoveTime (classifyMove p c cc s)\<rparr>"
  by (simp add: classifyMove_def Let_def)

text \<open>The call writes \<open>remainingMoveTime\<close> and \<open>prevCursorPos\<close> and nothing else.\<close>

lemma handleSmoothTyping_frame:
  "snd (handleSmoothTyping cp cc t s) =
     s\<lparr>remainingMoveTime := remainingMoveTime (snd (handleSmoothTyping cp cc t s)),
       prevCursorPos := cp\<rparr>"
proof (cases "cp = None \<or> prevCursorPos s = None")
  case True
  show ?thesis using handleSmoothTyping_absent [OF True, of cc t] by simp
next
  case False
  then obtain c p where cp: "cp = Some c" "prevCursorPos s = Some p" by auto
  obtain r where r: "classifyMove p c cc s = s\<lparr>remainingMoveTime := r\<rparr>"
    using classifyMove_frame by blast
  show ?thesis
    using cp by (simp add: handleSmoothTyping_present Let_def r)
qed

lemma handleSmoothTyping_fields:
  "blinkStartTime (snd (handleSmoothTyping cp cc t s)) = blinkStartTime s"
  "prevIconCoords (snd (handleSmoothTyping cp cc t s)) = prevIconCoords s"
  "prevCursorCoords (snd (handleSmoothTyping cp cc t s)) = prevCursorCoords s"
  "cursorElement (snd (handleSmoothTyping cp cc t s)) = cursorElement s"
  "settings (snd (handleSmoothTyping cp cc t s)) = settings s"
  "animationFrames (snd (handleSmoothTyping cp cc t s)) = animationFrames s"
  "prevFrameTime (snd (handleSmoothTyping cp cc t s)) = prevFrameTime s"
  by (subst handleSmoothTyping_frame, simp)+

lemma updateCursor_early:
  "sample f = NoSelection \<Longrightarrow>
     updateCursor f s = (None, scheduleNextUpdate (s\<lparr>prevFrameTime := dateNow f\<rparr>))"
  "sample f = NotFocused \<Longrightarrow>
     updateCursor f s = (None, scheduleNextUpdate (removeIcon (s\<lparr>prevFrameTime := dateNow f\<rparr>)))"
  by (simp_all add: updateCursor_def getTimeSinceLastFrame_def Let_def)

text \<open>The tick on the path that reaches the caret, with its locals named.\<close>

lemma updateCursor_caret:
  assumes "sample f = Caret node off pos"
  shows "updateCursor f s =
     (let rect = node off (if off = 0 then 1 else off);
          s1 = bringIconBack (s\<lparr>prevFrameTime := dateNow f\<rparr>);
          changed = (left (prevCursorCoords s) \<noteq> left rect
                     \<or> top' (prevCursorCoords s) \<noteq> top' rect);
          b = blinkCursor (dateNowBlink f) changed s1;
          h = handleSmoothTyping (Some pos) (Coordinates.truncate rect)
                (dateNow f - prevFrameTime s) (snd b);
          icon = moveIcon (fst h) (prevIconCoords s) rect
      in (Some (fst h),
          scheduleNextUpdate
            ((render icon rect (fst b) (snd h))
               \<lparr>prevCursorCoords := \<lparr>left = left rect, top' = top' rect\<rparr>,
                prevIconCoords := Some icon\<rparr>)))"
  using assms
  by (simp add: updateCursor_def getTimeSinceLastFrame_def Let_def split_def
      handleSmoothTyping_fields blinkCursor_snd bringIconBack_def requestAnimationFrame_def)

lemma updateCursor_blinkStartTime:
  "blinkStartTime (snd (updateCursor f s)) = blinkStartTime s"
proof (cases "sample f")
  case NoSelection
  then show ?thesis
    by (simp add: updateCursor_early scheduleNextUpdate_def requestAnimationFrame_def)
next
  case NotFocused
  then show ?thesis
    by (simp add: updateCursor_early scheduleNextUpdate_def requestAnimationFrame_def
        removeIcon_def)
next
  case (Caret node off pos)
  then show ?thesis
    by (simp add: updateCursor_caret Let_def scheduleNextUpdate_def requestAnimationFrame_def
        render_def handleSmoothTyping_fields blinkCursor_snd bringIconBack_def)
qed

lemma updateCursor_settings:
  "settings (snd (updateCursor f s)) = settings s"
proof (cases "sample f")
  case NoSelection
  then show ?thesis
    by (simp add: updateCursor_early scheduleNextUpdate_def requestAnimationFrame_def)
next
  case NotFocused
  then show ?thesis
    by (simp add: updateCursor_early scheduleNextUpdate_def requestAnimationFrame_def
        removeIcon_def)
next
  case (Caret node off pos)
  then show ?thesis
    by (simp add: updateCursor_caret Let_def scheduleNextUpdate_def requestAnimationFrame_def
        render_def handleSmoothTyping_fields blinkCursor_snd bringIconBack_def)
qed

lemma updateCursor_cursor_color:
  "cursor_color (cursorElement (snd (updateCursor f s))) = cursor_color (cursorElement s)"
proof (cases "sample f")
  case NoSelection
  then show ?thesis
    by (simp add: updateCursor_early scheduleNextUpdate_def requestAnimationFrame_def)
next
  case NotFocused
  then show ?thesis
    by (simp add: updateCursor_early scheduleNextUpdate_def requestAnimationFrame_def
        removeIcon_def)
next
  case (Caret node off pos)
  then show ?thesis
    by (simp add: updateCursor_caret Let_def scheduleNextUpdate_def requestAnimationFrame_def
        render_def handleSmoothTyping_fields blinkCursor_snd bringIconBack_def)
qed

text \<open>Callbacks of a frame: without a reset among them the blink timer stays; with
  one, it ends at the time the reset read.\<close>

lemma fold_no_reset:
  "ResetBlinkStart \<notin> set q \<Longrightarrow> blinkStartTime (fold (runCallback f) q s) = blinkStartTime s"
proof (induction q arbitrary: s)
  case Nil
  then show ?case by simp
next
  case (Cons cb q)
  then have "cb = UpdateCursor" by (cases cb) auto
  with Cons show ?case by (simp add: updateCursor_blinkStartTime)
qed

lemma fold_reset:
  "ResetBlinkStart \<in> set q \<Longrightarrow> blinkStartTime (fold (runCallback f) q s) = dateNowReset f"
proof (induction q arbitrary: s)
  case Nil
  then show ?case by simp
next
  case (Cons cb q)
  show ?case
  proof (cases "ResetBlinkStart \<in> set q")
    case True
    then show ?thesis by (simp add: Cons.IH)
  next
    case False
    with Cons.prems have "cb = ResetBlinkStart" by simp
    with False show ?thesis by (simp add: fold_no_reset)
  qed
qed

subsection \<open>The blink timer across frames\<close>

text \<open>The blink engine across frames: an animation frame keeps the settings; it sets the
  blink timer to the time it reads when a reset is pending, and keeps the timer
  otherwise. A tick that sees the caret at new coordinates renders the opacity 1 and
  leaves a reset pending.\<close>

lemma fold_settings: "settings (fold (runCallback f) q s) = settings s"
proof (induction q arbitrary: s)
  case Nil
  then show ?case by simp
next
  case (Cons cb q)
  then show ?case by (cases cb) (simp_all add: updateCursor_settings)
qed

lemma animationFrame_settings: "settings (animationFrame g s) = settings s"
  by (simp add: animationFrame_def fold_settings)

lemma animationFrame_reset:
  "ResetBlinkStart \<in> set (animationFrames s) \<Longrightarrow>
   blinkStartTime (animationFrame g s) = dateNowReset g"
  by (simp add: animationFrame_def fold_reset)

lemma animationFrame_no_reset:
  "ResetBlinkStart \<notin> set (animationFrames s) \<Longrightarrow>
   blinkStartTime (animationFrame g s) = blinkStartTime s"
  by (simp add: animationFrame_def fold_no_reset)

lemma blinkCursor_requests_reset:
  "ResetBlinkStart \<in> set (animationFrames (snd (blinkCursor now True s)))"
  "settings (snd (blinkCursor now c s)) = settings s"
  by (simp_all add: blinkCursor_snd requestAnimationFrame_def)

lemma updateCursor_changed:
  assumes "sample f = Caret node off pos"
    and "left (prevCursorCoords s) \<noteq> left (node off (if off = 0 then 1 else off))
         \<or> top' (prevCursorCoords s) \<noteq> top' (node off (if off = 0 then 1 else off))"
  shows "cursor_opacity (cursorElement (snd (updateCursor f s))) = Some 1"
    and "ResetBlinkStart \<in> set (animationFrames (snd (updateCursor f s)))"
proof -
  define rect where "rect = node off (if off = 0 then 1 else off)"
  define b where
    "b = blinkCursor (dateNowBlink f) True (bringIconBack (s\<lparr>prevFrameTime := dateNow f\<rparr>))"
  have c: "(left (prevCursorCoords s) \<noteq> left rect \<or> top' (prevCursorCoords s) \<noteq> top' rect)
             = True"
    using assms(2) by (simp add: rect_def)
  have b: "fst b = 1" "ResetBlinkStart \<in> set (animationFrames (snd b))"
    by (simp_all add: b_def blinkCursor_def resetCursor_def requestAnimationFrame_def)
  have u: "updateCursor f s =
     (let h = handleSmoothTyping (Some pos) (Coordinates.truncate rect)
                (dateNow f - prevFrameTime s) (snd b);
          icon = moveIcon (fst h) (prevIconCoords s) rect
      in (Some (fst h),
          scheduleNextUpdate
            ((render icon rect (fst b) (snd h))
               \<lparr>prevCursorCoords := \<lparr>left = left rect, top' = top' rect\<rparr>,
                prevIconCoords := Some icon\<rparr>)))"
    unfolding updateCursor_caret [OF assms(1)] rect_def [symmetric] Let_def c b_def ..
  show "cursor_opacity (cursorElement (snd (updateCursor f s))) = Some 1"
    by (simp add: u Let_def scheduleNextUpdate_def requestAnimationFrame_def render_def b
        handleSmoothTyping_fields)
  show "ResetBlinkStart \<in> set (animationFrames (snd (updateCursor f s)))"
    using b(2)
    by (simp add: u Let_def scheduleNextUpdate_def requestAnimationFrame_def render_def
        handleSmoothTyping_fields)
qed

text \<open>After the animation frame \<open>g\<close> that ran a pending reset, the opacity is counted
  from the time that frame read.\<close>

lemma blinkCursor_after_reset:
  assumes "ResetBlinkStart \<in> set (animationFrames st)"
  shows "later - dateNowReset g < blinkDelay (settings st) * 1000 \<Longrightarrow>
           fst (blinkCursor later c (animationFrame g st)) = 1"
    and "0 < blinkSpeed (settings st) \<Longrightarrow>
           fst (blinkCursor later c (animationFrame g st))
             = blinkOpacitySpec later (dateNowReset g) (blinkDelay (settings st))
                 (blinkSpeed (settings st)) c"
proof -
  have t: "blinkStartTime (animationFrame g st) = dateNowReset g"
    using assms by (rule animationFrame_reset)
  show "later - dateNowReset g < blinkDelay (settings st) * 1000 \<Longrightarrow>
           fst (blinkCursor later c (animationFrame g st)) = 1"
    using blinkCursor_delay [of later "animationFrame g st" c]
    by (simp add: t animationFrame_settings)
  show "0 < blinkSpeed (settings st) \<Longrightarrow>
           fst (blinkCursor later c (animationFrame g st))
             = blinkOpacitySpec later (dateNowReset g) (blinkDelay (settings st))
                 (blinkSpeed (settings st)) c"
    using blinkCursor_refines [of "animationFrame g st" later c]
    by (simp add: t animationFrame_settings)
qed

text \<open>
  C4. The opacity is 0 or 1 in every call. It is 1 when the position changed, and 1
  while \<open>now - blinkStartTime\<close> is below the blink delay. For a positive blink period
  the code returns what the specification describes: 1 when the position changed or
  \<open>elapsed < 0\<close>, 1 when \<open>elapsed mod period\<close> is below half the period, 0 otherwise.
  With no delay it is a square wave: in the \<open>k\<close>-th period after the reset it is 1 in
  the first half and 0 in the second half.

  The timer these times are counted from is tied to the position change. A call without
  a position change leaves the state as it is. After a call with a position change and
  the next animation frame \<open>g\<close>, which runs the reset the call requested, every call at a
  time \<open>later\<close> less than the blink delay after the time \<open>g\<close> read returns 1, and for a
  positive period the opacity is the specification's with the reset time of \<open>g\<close>; an
  animation frame with no reset pending keeps the timer. The same holds of a whole
  tick: one that measures the caret at coordinates other than the recorded ones
  renders the opacity 1, and after the next animation frame the opacity is 1 for the
  length of the delay.
\<close>

theorem blinkCursor_opacity:
  "fst (blinkCursor now changed s) \<in> {0, 1}
   \<and> (changed \<longrightarrow> fst (blinkCursor now changed s) = 1)
   \<and> (now - blinkStartTime s < blinkDelay (settings s) * 1000 \<longrightarrow>
        fst (blinkCursor now changed s) = 1)
   \<and> (0 < blinkSpeed (settings s) \<longrightarrow>
        fst (blinkCursor now changed s)
          = blinkOpacitySpec now (blinkStartTime s) (blinkDelay (settings s))
              (blinkSpeed (settings s)) changed)
   \<and> (\<not> changed \<and> blinkDelay (settings s) = 0 \<and> 0 < blinkSpeed (settings s) \<longrightarrow>
        (of_nat k * (blinkSpeed (settings s) * 1000) \<le> now - blinkStartTime s
         \<and> now - blinkStartTime s
             < of_nat k * (blinkSpeed (settings s) * 1000) + blinkSpeed (settings s) * 1000 / 2
         \<longrightarrow> fst (blinkCursor now changed s) = 1)
        \<and> (of_nat k * (blinkSpeed (settings s) * 1000) + blinkSpeed (settings s) * 1000 / 2
             \<le> now - blinkStartTime s
           \<and> now - blinkStartTime s
               < of_nat k * (blinkSpeed (settings s) * 1000) + blinkSpeed (settings s) * 1000
           \<longrightarrow> fst (blinkCursor now changed s) = 0))
   \<and> snd (blinkCursor now False s) = s
   \<and> (later - dateNowReset g < blinkDelay (settings s) * 1000 \<longrightarrow>
        fst (blinkCursor later changed2 (animationFrame g (snd (blinkCursor now True s)))) = 1)
   \<and> (0 < blinkSpeed (settings s) \<longrightarrow>
        fst (blinkCursor later changed2 (animationFrame g (snd (blinkCursor now True s))))
          = blinkOpacitySpec later (dateNowReset g) (blinkDelay (settings s))
              (blinkSpeed (settings s)) changed2)
   \<and> (ResetBlinkStart \<notin> set (animationFrames s) \<longrightarrow>
        blinkStartTime (animationFrame g s) = blinkStartTime s)
   \<and> (\<forall>node off pos.
        sample f = Caret node off pos
        \<and> (left (prevCursorCoords s) \<noteq> left (node off (if off = 0 then 1 else off))
           \<or> top' (prevCursorCoords s) \<noteq> top' (node off (if off = 0 then 1 else off)))
        \<longrightarrow> cursor_opacity (cursorElement (snd (updateCursor f s))) = Some 1
            \<and> (later - dateNowReset g < blinkDelay (settings s) * 1000 \<longrightarrow>
                 fst (blinkCursor later changed2 (animationFrame g (snd (updateCursor f s))))
                   = 1))"
proof (intro conjI impI allI)
  show "fst (blinkCursor now changed s) \<in> {0, 1}" by (rule blinkCursor_binary)
  show "changed \<Longrightarrow> fst (blinkCursor now changed s) = 1"
    by (simp add: blinkCursor_def resetCursor_def)
  show "now - blinkStartTime s < blinkDelay (settings s) * 1000 \<Longrightarrow>
        fst (blinkCursor now changed s) = 1"
    by (rule blinkCursor_delay)
  show "0 < blinkSpeed (settings s) \<Longrightarrow>
        fst (blinkCursor now changed s)
          = blinkOpacitySpec now (blinkStartTime s) (blinkDelay (settings s))
              (blinkSpeed (settings s)) changed"
    by (rule blinkCursor_refines)
  show "snd (blinkCursor now False s) = s" by (simp add: blinkCursor_snd)
  show "ResetBlinkStart \<notin> set (animationFrames s) \<Longrightarrow>
        blinkStartTime (animationFrame g s) = blinkStartTime s"
    by (rule animationFrame_no_reset)
next
  let ?P = "blinkSpeed (settings s) * 1000"
  let ?e = "now - blinkStartTime s"
  assume a: "\<not> changed \<and> blinkDelay (settings s) = 0 \<and> 0 < blinkSpeed (settings s)"
  then have P: "0 < ?P" by simp
  assume b: "of_nat k * ?P \<le> ?e \<and> ?e < of_nat k * ?P + ?P / 2"
  have "0 \<le> of_nat k * ?P" using P by simp
  with b have e: "0 \<le> ?e" by linarith
  have "?e - ?P * of_int \<lfloor>?e / ?P\<rfloor> < ?P / 2"
    using P b by (intro square_wave_on [of ?P k ?e]) auto
  then show "fst (blinkCursor now changed s) = 1"
    using a e by (simp add: blinkCursor_refines blinkOpacitySpec_def Let_def)
next
  let ?P = "blinkSpeed (settings s) * 1000"
  let ?e = "now - blinkStartTime s"
  assume a: "\<not> changed \<and> blinkDelay (settings s) = 0 \<and> 0 < blinkSpeed (settings s)"
  then have P: "0 < ?P" by simp
  assume b: "of_nat k * ?P + ?P / 2 \<le> ?e \<and> ?e < of_nat k * ?P + ?P"
  have "0 \<le> of_nat k * ?P" using P by simp
  with b P have e: "0 \<le> ?e" by linarith
  have "\<not> ?e - ?P * of_int \<lfloor>?e / ?P\<rfloor> < ?P / 2"
    using P b by (intro square_wave_off [of ?P k ?e]) auto
  then show "fst (blinkCursor now changed s) = 0"
    using a e by (simp add: blinkCursor_refines blinkOpacitySpec_def Let_def)
next
  assume "later - dateNowReset g < blinkDelay (settings s) * 1000"
  then show "fst (blinkCursor later changed2 (animationFrame g (snd (blinkCursor now True s)))) = 1"
    using blinkCursor_after_reset(1)
      [where st = "snd (blinkCursor now True s)" and later = later and g = g and c = changed2]
    by (simp add: blinkCursor_requests_reset)
next
  assume "0 < blinkSpeed (settings s)"
  then show "fst (blinkCursor later changed2 (animationFrame g (snd (blinkCursor now True s))))
          = blinkOpacitySpec later (dateNowReset g) (blinkDelay (settings s))
              (blinkSpeed (settings s)) changed2"
    using blinkCursor_after_reset(2)
      [where st = "snd (blinkCursor now True s)" and later = later and g = g and c = changed2]
    by (simp add: blinkCursor_requests_reset)
next
  fix node off pos
  assume m: "sample f = Caret node off pos
        \<and> (left (prevCursorCoords s) \<noteq> left (node off (if off = 0 then 1 else off))
           \<or> top' (prevCursorCoords s) \<noteq> top' (node off (if off = 0 then 1 else off)))"
  then show "cursor_opacity (cursorElement (snd (updateCursor f s))) = Some 1"
    by (intro updateCursor_changed(1)) auto
  assume "later - dateNowReset g < blinkDelay (settings s) * 1000"
  moreover have "ResetBlinkStart \<in> set (animationFrames (snd (updateCursor f s)))"
    using m by (intro updateCursor_changed(2)) auto
  ultimately show
    "fst (blinkCursor later changed2 (animationFrame g (snd (updateCursor f s)))) = 1"
    using blinkCursor_after_reset(1)
      [where st = "snd (updateCursor f s)" and later = later and g = g and c = changed2]
    by (simp add: updateCursor_settings)
qed

text \<open>
  With a period of 1 s and the timer reset at 0: visible at 250 ms, hidden at 750 ms,
  visible again at 1250 ms; visible at 1750 ms when the position changed, and when a
  delay of 2 s is configured. With the default period of 1.2 s and a delay of 2 s, a
  move at 10000 ms whose reset runs in the frame at 10016 ms keeps the overlay visible
  at 10016 ms and at 12000 ms, after the call as after a whole tick; counted from the
  old timer at 0, the time 10016 ms would fall into the hidden half of a period.
\<close>

theorem blinkCursor_opacity_witness:
  "fst (blinkCursor 250 False ((newPlugin 0)\<lparr>settings := DEFAULT_SETTINGS\<lparr>blinkSpeed := 1\<rparr>\<rparr>)) = 1
   \<and> fst (blinkCursor 750 False ((newPlugin 0)\<lparr>settings := DEFAULT_SETTINGS\<lparr>blinkSpeed := 1\<rparr>\<rparr>)) = 0
   \<and> fst (blinkCursor 1250 False ((newPlugin 0)\<lparr>settings := DEFAULT_SETTINGS\<lparr>blinkSpeed := 1\<rparr>\<rparr>)) = 1
   \<and> fst (blinkCursor 1750 True ((newPlugin 0)\<lparr>settings := DEFAULT_SETTINGS\<lparr>blinkSpeed := 1\<rparr>\<rparr>)) = 1
   \<and> fst (blinkCursor 1750 False
        ((newPlugin 0)\<lparr>settings := DEFAULT_SETTINGS\<lparr>blinkSpeed := 1, blinkDelay := 2\<rparr>\<rparr>)) = 1
   \<and> fst (blinkCursor 10016 False
        (animationFrame (caretAt 10016 \<lparr>line = 0, ch = 1\<rparr> \<lparr>left = 10, top' = 0, height = 18\<rparr>)
          (snd (blinkCursor 10000 True
             ((newPlugin 0)\<lparr>settings := DEFAULT_SETTINGS\<lparr>blinkDelay := 2\<rparr>\<rparr>))))) = 1
   \<and> fst (blinkCursor 12000 False
        (animationFrame (caretAt 10016 \<lparr>line = 0, ch = 1\<rparr> \<lparr>left = 10, top' = 0, height = 18\<rparr>)
          (snd (updateCursor
             (caretAt 10000 \<lparr>line = 0, ch = 1\<rparr> \<lparr>left = 10, top' = 0, height = 18\<rparr>)
             ((newPlugin 0)\<lparr>settings := DEFAULT_SETTINGS\<lparr>blinkDelay := 2\<rparr>\<rparr>))))) = 1
   \<and> cursor_opacity (cursorElement
        (snd (updateCursor
             (caretAt 10000 \<lparr>line = 0, ch = 1\<rparr> \<lparr>left = 10, top' = 0, height = 18\<rparr>)
             ((newPlugin 0)\<lparr>settings := DEFAULT_SETTINGS\<lparr>blinkDelay := 2\<rparr>\<rparr>)))) = Some 1"
proof -
  let ?s = "(newPlugin 0)\<lparr>settings := DEFAULT_SETTINGS\<lparr>blinkSpeed := 1\<rparr>\<rparr>"
  let ?d = "(newPlugin 0)\<lparr>settings := DEFAULT_SETTINGS\<lparr>blinkSpeed := 1, blinkDelay := 2\<rparr>\<rparr>"
  let ?m = "(newPlugin 0)\<lparr>settings := DEFAULT_SETTINGS\<lparr>blinkDelay := 2\<rparr>\<rparr>"
  let ?f = "caretAt 10000 \<lparr>line = 0, ch = 1\<rparr> \<lparr>left = 10, top' = 0, height = 18\<rparr>"
  let ?g = "caretAt 10016 \<lparr>line = 0, ch = 1\<rparr> \<lparr>left = 10, top' = 0, height = 18\<rparr>"
  have one: "fst (blinkCursor 250 False ?s) = 1 \<and> fst (blinkCursor 750 False ?s) = 0
      \<and> fst (blinkCursor 1250 False ?s) = 1 \<and> fst (blinkCursor 1750 True ?s) = 1
      \<and> fst (blinkCursor 1750 False ?d) = 1"
    using
      blinkCursor_opacity [of 250 False ?s 0, THEN conjunct2, THEN conjunct2, THEN conjunct2,
        THEN conjunct2, THEN conjunct1]
      blinkCursor_opacity [of 750 False ?s 0, THEN conjunct2, THEN conjunct2, THEN conjunct2,
        THEN conjunct2, THEN conjunct1]
      blinkCursor_opacity [of 1250 False ?s 1, THEN conjunct2, THEN conjunct2, THEN conjunct2,
        THEN conjunct2, THEN conjunct1]
      blinkCursor_opacity [of 1750 True ?s 0, THEN conjunct2, THEN conjunct1]
      blinkCursor_opacity [of 1750 False ?d 0, THEN conjunct2, THEN conjunct2, THEN conjunct1]
    by (simp add: newPlugin_def DEFAULT_SETTINGS_def)
  have g: "dateNowReset ?g = 10016" by (simp add: caretAt_def)
  have d: "blinkDelay (settings ?m) = 2" by (simp add: DEFAULT_SETTINGS_def)
  have c: "prevCursorCoords ?m = \<lparr>left = 0, top' = 0\<rparr>" by (simp add: newPlugin_def)
  note t1 = blinkCursor_opacity [of 10000 False ?m 0 10016 ?g False ?f]
  note t2 = blinkCursor_opacity [of 10000 False ?m 0 12000 ?g False ?f]
  have two: "fst (blinkCursor 10016 False (animationFrame ?g (snd (blinkCursor 10000 True ?m)))) = 1"
    using t1 [THEN conjunct2, THEN conjunct2, THEN conjunct2, THEN conjunct2, THEN conjunct2,
        THEN conjunct2, THEN conjunct1]
    unfolding g d by simp
  have three: "cursor_opacity (cursorElement (snd (updateCursor ?f ?m))) = Some 1
      \<and> fst (blinkCursor 12000 False (animationFrame ?g (snd (updateCursor ?f ?m)))) = 1"
    using t2 [THEN conjunct2, THEN conjunct2, THEN conjunct2, THEN conjunct2, THEN conjunct2,
        THEN conjunct2, THEN conjunct2, THEN conjunct2, THEN conjunct2]
    unfolding g d c by (simp add: sample_caretAt)
  show ?thesis using one two three by simp
qed

text \<open>
  C9. A call of \<open>blinkCursor\<close> with a changed position returns 1 and changes nothing
  but the list of pending animation-frame callbacks, to which it adds the reset: the
  blink timer is as before after the call, and after the whole tick. The next animation
  frame \<open>g\<close> runs the reset, and the timer then holds the time read in that frame.
\<close>

theorem blinkCursor_reset_deferred:
  "blinkCursor now True s = (1, s\<lparr>animationFrames := animationFrames s @ [ResetBlinkStart]\<rparr>)
   \<and> blinkStartTime (snd (blinkCursor now True s)) = blinkStartTime s
   \<and> blinkStartTime (snd (updateCursor f s)) = blinkStartTime s
   \<and> blinkStartTime (animationFrame g (snd (blinkCursor now True s))) = dateNowReset g"
  by (simp add: blinkCursor_def resetCursor_def requestAnimationFrame_def animationFrame_def
        fold_reset updateCursor_blinkStartTime)

text \<open>The timer set at 0 stays 0 through a call at 100 ms with a changed position and
  through a tick at 100 ms that moves the caret; the frame at 116 ms sets it to 116.\<close>

theorem blinkCursor_reset_deferred_witness:
  "fst (blinkCursor 100 True (newPlugin 0)) = 1
   \<and> blinkStartTime (snd (blinkCursor 100 True (newPlugin 0))) = 0
   \<and> blinkStartTime
        (snd (updateCursor (caretAt 100 \<lparr>line = 0, ch = 1\<rparr> \<lparr>left = 10, top' = 0, height = 18\<rparr>)
           (newPlugin 0))) = 0
   \<and> blinkStartTime
        (animationFrame (caretAt 116 \<lparr>line = 0, ch = 1\<rparr> \<lparr>left = 10, top' = 0, height = 18\<rparr>)
           (snd (blinkCursor 100 True (newPlugin 0)))) = 116"
proof -
  note t = blinkCursor_reset_deferred
    [of 100 "newPlugin 0" "caretAt 100 \<lparr>line = 0, ch = 1\<rparr> \<lparr>left = 10, top' = 0, height = 18\<rparr>"
      "caretAt 116 \<lparr>line = 0, ch = 1\<rparr> \<lparr>left = 10, top' = 0, height = 18\<rparr>"]
  have a: "blinkStartTime (newPlugin 0) = 0" by (simp add: newPlugin_def)
  have b: "dateNowReset (caretAt 116 \<lparr>line = 0, ch = 1\<rparr> \<lparr>left = 10, top' = 0, height = 18\<rparr>) = 116"
    by (simp add: caretAt_def)
  have 1: "fst (blinkCursor 100 True (newPlugin 0)) = 1"
    using t [THEN conjunct1] by simp
  show ?thesis
    using 1 t [THEN conjunct2] a b by simp
qed

subsection \<open>What a tick records\<close>

text \<open>
  C8, as amended. On a tick that passes both guards, \<open>prevCursorCoords\<close> becomes the
  point of the measured caret rectangle and \<open>prevIconCoords\<close> the icon point that the
  tick rendered. On the two early-return paths (no selection or focus node; editor not
  focused) both are left as they were.
\<close>

theorem updateCursor_records_points:
  "(\<forall>node off pos. sample f = Caret node off pos \<longrightarrow>
      prevCursorCoords (snd (updateCursor f s))
        = Coordinates.truncate (node off (if off = 0 then 1 else off))
      \<and> (\<exists>icon. prevIconCoords (snd (updateCursor f s)) = Some icon
            \<and> cursor_x1 (cursorElement (snd (updateCursor f s))) = Some (left icon)
            \<and> cursor_y1 (cursorElement (snd (updateCursor f s))) = Some (top' icon)))
   \<and> (sample f = NoSelection \<or> sample f = NotFocused \<longrightarrow>
        prevCursorCoords (snd (updateCursor f s)) = prevCursorCoords s
        \<and> prevIconCoords (snd (updateCursor f s)) = prevIconCoords s)"
proof (cases "sample f")
  case NoSelection
  then show ?thesis
    by (simp add: updateCursor_early scheduleNextUpdate_def requestAnimationFrame_def)
next
  case NotFocused
  then show ?thesis
    by (simp add: updateCursor_early scheduleNextUpdate_def requestAnimationFrame_def
        removeIcon_def)
next
  case (Caret node off pos)
  then show ?thesis
    by (simp add: updateCursor_caret Let_def scheduleNextUpdate_def requestAnimationFrame_def
        render_def handleSmoothTyping_fields Coordinates.truncate_def DOMRect.truncate_def)
qed

text \<open>From the initial object: a focused frame with the caret measured at (10, 0)
  records that point; a frame without focus, whose focus node measures (5, 7), keeps
  the old caret and icon points.\<close>

theorem updateCursor_records_points_witness:
  "prevCursorCoords
       (snd (updateCursor (caretAt 16 \<lparr>line = 0, ch = 1\<rparr> \<lparr>left = 10, top' = 0, height = 18\<rparr>)
          (newPlugin 0)))
     = \<lparr>left = 10, top' = 0\<rparr>
   \<and> prevCursorCoords
       (snd (updateCursor (unfocusedAt 16 \<lparr>left = 5, top' = 7, height = 18\<rparr>) (newPlugin 0)))
     = \<lparr>left = 0, top' = 0\<rparr>
   \<and> prevIconCoords
       (snd (updateCursor (unfocusedAt 16 \<lparr>left = 5, top' = 7, height = 18\<rparr>) (newPlugin 0)))
     = Some \<lparr>left = 0, top' = 0\<rparr>"
proof -
  have a: "prevCursorCoords (newPlugin 0) = \<lparr>left = 0, top' = 0\<rparr>"
    and b: "prevIconCoords (newPlugin 0) = Some \<lparr>left = 0, top' = 0\<rparr>"
    by (simp_all add: newPlugin_def)
  show ?thesis
    using updateCursor_records_points
      [of "caretAt 16 \<lparr>line = 0, ch = 1\<rparr> \<lparr>left = 10, top' = 0, height = 18\<rparr>" "newPlugin 0"]
      updateCursor_records_points
      [of "unfocusedAt 16 \<lparr>left = 5, top' = 7, height = 18\<rparr>" "newPlugin 0"]
    by (simp add: sample_caretAt sample_unfocusedAt a b Coordinates.truncate_def
        DOMRect.truncate_def)
qed

text \<open>
  C8 as stated fails on the early-return paths. In a frame where the selection has a
  focus node, measuring (5, 7), and no editor is focused, the tick returns on line 115:
  the recorded caret point stays (0, 0) and the recorded icon point stays (0, 0).
\<close>

theorem updateCursor_early_return_counterexample:
  "sample (unfocusedAt 16 \<lparr>left = 5, top' = 7, height = 18\<rparr>) = NotFocused
   \<and> fst (updateCursor (unfocusedAt 16 \<lparr>left = 5, top' = 7, height = 18\<rparr>) (newPlugin 0)) = None
   \<and> prevCursorCoords
       (snd (updateCursor (unfocusedAt 16 \<lparr>left = 5, top' = 7, height = 18\<rparr>) (newPlugin 0)))
     \<noteq> \<lparr>left = 5, top' = 7\<rparr>
   \<and> prevIconCoords
       (snd (updateCursor (unfocusedAt 16 \<lparr>left = 5, top' = 7, height = 18\<rparr>) (newPlugin 0)))
     = prevIconCoords (newPlugin 0)"
  by (simp add: sample_unfocusedAt updateCursor_early scheduleNextUpdate_def
      requestAnimationFrame_def removeIcon_def newPlugin_def)

section \<open>The scenario of a single smooth step\<close>

lemma classifyMove_remaining:
  assumes "line p = line c" "\<bar>ch p - ch c\<bar> = 1 \<or> ch p = ch c"
    and "top' cc = top' (prevCursorCoords s)"
  shows "remainingMoveTime (classifyMove p c cc s)
           = (if ch p = ch c then remainingMoveTime s else characterMovementTime (settings s))"
  using assms by (auto simp: classifyMove_def Let_def)

text \<open>
  One focused frame at time \<open>t\<close> in which the caret is on the pixel row of the last
  frame and either rests or has moved by one column, with a positive remaining time
  \<open>r\<close> after classification.
\<close>

lemma tick_smooth_state:
  assumes "prevCursorPos s = Some p" "line p = line c" "\<bar>ch p - ch c\<bar> = 1 \<or> ch p = ch c"
    and "top' (prevCursorCoords s) = top' rect"
    and "prevIconCoords s = Some icon"
    and "r = (if ch p = ch c then remainingMoveTime s else characterMovementTime (settings s))"
    and "0 < r" "prevFrameTime s < t"
  shows "fst (updateCursor (caretAt t c rect) s) = Some (min ((t - prevFrameTime s) / r) 1)"
    and "prevCursorPos (snd (updateCursor (caretAt t c rect) s)) = Some c"
    and "prevCursorCoords (snd (updateCursor (caretAt t c rect) s)) = Coordinates.truncate rect"
    and "prevIconCoords (snd (updateCursor (caretAt t c rect) s))
           = Some (moveIcon (min ((t - prevFrameTime s) / r) 1) (Some icon) rect)"
    and "remainingMoveTime (snd (updateCursor (caretAt t c rect) s))
           = max 0 (r - (t - prevFrameTime s))"
    and "prevFrameTime (snd (updateCursor (caretAt t c rect) s)) = t"
    and "settings (snd (updateCursor (caretAt t c rect) s)) = settings s"
    and "cursor_x1 (cursorElement (snd (updateCursor (caretAt t c rect) s)))
           = Some (left (moveIcon (min ((t - prevFrameTime s) / r) 1) (Some icon) rect))"
proof -
  define b where "b = blinkCursor (dateNowBlink (caretAt t c rect))
      (left (prevCursorCoords s) \<noteq> left rect \<or> top' (prevCursorCoords s) \<noteq> top' rect)
      (bringIconBack (s\<lparr>prevFrameTime := dateNow (caretAt t c rect)\<rparr>))"
  define tr where "tr = Coordinates.truncate rect"
  have sb: "prevCursorPos (snd b) = Some p" "prevCursorCoords (snd b) = prevCursorCoords s"
    "remainingMoveTime (snd b) = remainingMoveTime s" "settings (snd b) = settings s"
    "prevFrameTime (snd b) = t"
    using assms(1)
    by (simp_all add: b_def blinkCursor_snd bringIconBack_def requestAnimationFrame_def
        caretAt_def)
  have "top' tr = top' (prevCursorCoords (snd b))"
    unfolding sb(2) tr_def using assms(4) by (simp add: Coordinates.truncate_def)
  then have "remainingMoveTime (classifyMove p c tr (snd b))
           = (if ch p = ch c then remainingMoveTime (snd b)
              else characterMovementTime (settings (snd b)))"
    using assms(2,3) by (intro classifyMove_remaining)
  then have k: "remainingMoveTime (classifyMove p c tr (snd b)) = r"
    unfolding sb assms(6) by simp
  define h where "h = handleSmoothTyping (Some c) tr (t - prevFrameTime s) (snd b)"
  have h: "fst h = min ((t - prevFrameTime s) / r) 1"
    "remainingMoveTime (snd h) = max 0 (r - (t - prevFrameTime s))"
    "prevCursorPos (snd h) = Some c"
    using assms(7,8) by (simp_all add: h_def handleSmoothTyping_present [OF sb(1)] Let_def k)
  have hf: "settings (snd h) = settings s" "prevFrameTime (snd h) = t"
    by (simp_all add: h_def handleSmoothTyping_fields sb)
  have u: "updateCursor (caretAt t c rect) s =
      (Some (fst h),
          scheduleNextUpdate
            ((render (moveIcon (fst h) (prevIconCoords s) rect) rect (fst b) (snd h))
               \<lparr>prevCursorCoords := \<lparr>left = left rect, top' = top' rect\<rparr>,
                prevIconCoords := Some (moveIcon (fst h) (prevIconCoords s) rect)\<rparr>))"
    unfolding h_def b_def tr_def
    by (simp add: updateCursor_caret [OF sample_caretAt] Let_def) (simp add: caretAt_def)
  show "fst (updateCursor (caretAt t c rect) s) = Some (min ((t - prevFrameTime s) / r) 1)"
    by (simp add: u Let_def h)
  show "prevCursorPos (snd (updateCursor (caretAt t c rect) s)) = Some c"
    by (simp add: u Let_def h scheduleNextUpdate_def requestAnimationFrame_def render_def)
  show "prevCursorCoords (snd (updateCursor (caretAt t c rect) s)) = Coordinates.truncate rect"
    by (simp add: u Let_def scheduleNextUpdate_def requestAnimationFrame_def render_def
        Coordinates.truncate_def)
  show "prevIconCoords (snd (updateCursor (caretAt t c rect) s))
           = Some (moveIcon (min ((t - prevFrameTime s) / r) 1) (Some icon) rect)"
    by (simp add: u Let_def h scheduleNextUpdate_def requestAnimationFrame_def render_def
        assms(5))
  show "remainingMoveTime (snd (updateCursor (caretAt t c rect) s))
          = max 0 (r - (t - prevFrameTime s))"
    by (simp add: u Let_def h scheduleNextUpdate_def requestAnimationFrame_def render_def)
  show "prevFrameTime (snd (updateCursor (caretAt t c rect) s)) = t"
    by (simp add: u Let_def scheduleNextUpdate_def requestAnimationFrame_def render_def hf)
  show "settings (snd (updateCursor (caretAt t c rect) s)) = settings s"
    by (simp add: u Let_def scheduleNextUpdate_def requestAnimationFrame_def render_def hf)
  show "cursor_x1 (cursorElement (snd (updateCursor (caretAt t c rect) s)))
           = Some (left (moveIcon (min ((t - prevFrameTime s) / r) 1) (Some icon) rect))"
    by (simp add: u Let_def h scheduleNextUpdate_def requestAnimationFrame_def render_def
        assms(5))
qed

lemma ticks_Cons:
  "fst (ticks (f # fs) s) = fst (updateCursor f s) # fst (ticks fs (snd (updateCursor f s)))"
  "snd (ticks (f # fs) s) = snd (ticks fs (snd (updateCursor f s)))"
  by (simp_all add: split_def Let_def)

lemma moveIcon_Some:
  "f \<noteq> 0 \<Longrightarrow> moveIcon f (Some \<lparr>left = a, top' = b\<rparr>) rect
     = \<lparr>left = a + f * (left rect - a), top' = b + f * (top' rect - b)\<rparr>"
  by (simp add: moveIcon_def)

text \<open>The same frame with the icon at \<open>(a, y)\<close> on the caret's pixel row and the caret
  at \<open>(x, y)\<close>: the icon advances by the fraction of its distance to the caret.\<close>

lemma tick_in_flight:
  assumes "prevCursorPos s = Some p" "line p = line c" "\<bar>ch p - ch c\<bar> = 1 \<or> ch p = ch c"
    and "top' (prevCursorCoords s) = y"
    and "prevIconCoords s = Some \<lparr>left = a, top' = y\<rparr>"
    and "r = (if ch p = ch c then remainingMoveTime s else characterMovementTime (settings s))"
    and "0 < r" "prevFrameTime s < t"
    and "rect = \<lparr>left = x, top' = y, height = h\<rparr>"
    and "fr = min ((t - prevFrameTime s) / r) 1"
    and "s' = snd (updateCursor (caretAt t c rect) s)"
  shows "fst (updateCursor (caretAt t c rect) s) = Some fr
    \<and> prevCursorPos s' = Some c \<and> top' (prevCursorCoords s') = y
    \<and> prevIconCoords s' = Some \<lparr>left = a + fr * (x - a), top' = y\<rparr>
    \<and> remainingMoveTime s' = max 0 (r - (t - prevFrameTime s))
    \<and> prevFrameTime s' = t
    \<and> characterMovementTime (settings s') = characterMovementTime (settings s)
    \<and> cursor_x1 (cursorElement s') = Some (a + fr * (x - a))"
proof -
  have fr: "fr \<noteq> 0" using assms(7,8,10) by (simp add: min_def)
  have m: "moveIcon fr (Some \<lparr>left = a, top' = y\<rparr>) rect = \<lparr>left = a + fr * (x - a), top' = y\<rparr>"
    using fr by (simp add: moveIcon_Some assms(9))
  have y: "top' (prevCursorCoords s) = top' rect" using assms(4,9) by simp
  note st = tick_smooth_state [OF assms(1,2,3) y assms(5,6,7,8)]
  show ?thesis
    unfolding assms(11) st unfolding assms(10) [symmetric] m
    by (simp add: Coordinates.truncate_def assms(9))
qed

text \<open>
  C6. The caret and the icon rest at \<open>(x, y)\<close>, the configured move time is 80 ms and
  the last frame was at time \<open>T\<close>. The caret then steps one column to the right, to
  \<open>(x + 10, y)\<close>, and five frames follow at intervals of 16 ms. Their fractions are
  1/5, 1/4, 1/3, 1/2 and 1; the rendered icon is at \<open>x + 2\<close>, \<open>x + 4\<close>, \<open>x + 6\<close>,
  \<open>x + 8\<close> and, at the fifth frame, at the caret's \<open>x + 10\<close>.
\<close>

theorem smooth_step_scenario:
  assumes "prevCursorPos s = Some p" and "top' (prevCursorCoords s) = y"
    and "prevIconCoords s = Some \<lparr>left = x, top' = y\<rparr>"
    and "characterMovementTime (settings s) = 80" and "prevFrameTime s = T"
    and "c = p\<lparr>ch := ch p + 1\<rparr>" and "rect = \<lparr>left = x + 10, top' = y, height = h\<rparr>"
    and "frames = [caretAt (T + 16) c rect, caretAt (T + 32) c rect, caretAt (T + 48) c rect,
                   caretAt (T + 64) c rect, caretAt (T + 80) c rect]"
  shows "fst (ticks frames s) = [Some (1 / 5), Some (1 / 4), Some (1 / 3), Some (1 / 2), Some 1]
    \<and> map (\<lambda>n. cursor_x1 (cursorElement (snd (ticks (take n frames) s)))) [1, 2, 3, 4, 5]
        = [Some (x + 2), Some (x + 4), Some (x + 6), Some (x + 8), Some (x + 10)]
    \<and> prevIconCoords (snd (ticks frames s)) = Some \<lparr>left = left rect, top' = top' rect\<rparr>"
proof -
  define s1 where "s1 = snd (updateCursor (caretAt (T + 16) c rect) s)"
  define s2 where "s2 = snd (updateCursor (caretAt (T + 32) c rect) s1)"
  define s3 where "s3 = snd (updateCursor (caretAt (T + 48) c rect) s2)"
  define s4 where "s4 = snd (updateCursor (caretAt (T + 64) c rect) s3)"
  define s5 where "s5 = snd (updateCursor (caretAt (T + 80) c rect) s4)"
  have 1: "fst (updateCursor (caretAt (T + 16) c rect) s) = Some (1 / 5)
    \<and> prevCursorPos s1 = Some c \<and> top' (prevCursorCoords s1) = y
    \<and> prevIconCoords s1 = Some \<lparr>left = x + 2, top' = y\<rparr>
    \<and> remainingMoveTime s1 = 64 \<and> prevFrameTime s1 = T + 16
    \<and> characterMovementTime (settings s1) = 80
    \<and> cursor_x1 (cursorElement s1) = Some (x + 2)"
    using tick_in_flight [OF assms(1) _ _ assms(2,3) _ _ _ assms(7) refl s1_def, of 80]
    by (simp add: assms(4,5,6))
  have 2: "fst (updateCursor (caretAt (T + 32) c rect) s1) = Some (1 / 4)
    \<and> prevCursorPos s2 = Some c \<and> top' (prevCursorCoords s2) = y
    \<and> prevIconCoords s2 = Some \<lparr>left = x + 4, top' = y\<rparr>
    \<and> remainingMoveTime s2 = 48 \<and> prevFrameTime s2 = T + 32
    \<and> characterMovementTime (settings s2) = 80
    \<and> cursor_x1 (cursorElement s2) = Some (x + 4)"
    using tick_in_flight [of s1 c c y "x + 2" 64 "T + 32" rect "x + 10" h _ s2,
        OF _ _ _ _ _ _ _ _ assms(7) refl s2_def] 1
    by simp
  have 3: "fst (updateCursor (caretAt (T + 48) c rect) s2) = Some (1 / 3)
    \<and> prevCursorPos s3 = Some c \<and> top' (prevCursorCoords s3) = y
    \<and> prevIconCoords s3 = Some \<lparr>left = x + 6, top' = y\<rparr>
    \<and> remainingMoveTime s3 = 32 \<and> prevFrameTime s3 = T + 48
    \<and> characterMovementTime (settings s3) = 80
    \<and> cursor_x1 (cursorElement s3) = Some (x + 6)"
    using tick_in_flight [of s2 c c y "x + 4" 48 "T + 48" rect "x + 10" h _ s3,
        OF _ _ _ _ _ _ _ _ assms(7) refl s3_def] 2
    by simp
  have 4: "fst (updateCursor (caretAt (T + 64) c rect) s3) = Some (1 / 2)
    \<and> prevCursorPos s4 = Some c \<and> top' (prevCursorCoords s4) = y
    \<and> prevIconCoords s4 = Some \<lparr>left = x + 8, top' = y\<rparr>
    \<and> remainingMoveTime s4 = 16 \<and> prevFrameTime s4 = T + 64
    \<and> characterMovementTime (settings s4) = 80
    \<and> cursor_x1 (cursorElement s4) = Some (x + 8)"
    using tick_in_flight [of s3 c c y "x + 6" 32 "T + 64" rect "x + 10" h _ s4,
        OF _ _ _ _ _ _ _ _ assms(7) refl s4_def] 3
    by simp
  have 5: "fst (updateCursor (caretAt (T + 80) c rect) s4) = Some 1
    \<and> prevIconCoords s5 = Some \<lparr>left = x + 10, top' = y\<rparr>
    \<and> remainingMoveTime s5 = 0
    \<and> cursor_x1 (cursorElement s5) = Some (x + 10)"
    using tick_in_flight [of s4 c c y "x + 8" 16 "T + 80" rect "x + 10" h _ s5,
        OF _ _ _ _ _ _ _ _ assms(7) refl s5_def] 4
    by simp
  have r: "left rect = x + 10" "top' rect = y" by (simp_all add: assms(7))
  show ?thesis
    unfolding assms(8)
    using 1 2 3 4 5 r
    by (simp del: ticks.simps(2) add: ticks_Cons s1_def [symmetric] s2_def [symmetric]
        s3_def [symmetric] s4_def [symmetric] s5_def [symmetric])
qed

text \<open>The scenario from the initial object: caret and icon at (0, 0), last frame at
  time 0, frames at 16, 32, 48, 64 and 80 ms with the caret at (10, 0).\<close>

theorem smooth_step_scenario_witness:
  "fst (ticks
     [caretAt 16 \<lparr>line = 0, ch = 1\<rparr> \<lparr>left = 10, top' = 0, height = 18\<rparr>,
      caretAt 32 \<lparr>line = 0, ch = 1\<rparr> \<lparr>left = 10, top' = 0, height = 18\<rparr>,
      caretAt 48 \<lparr>line = 0, ch = 1\<rparr> \<lparr>left = 10, top' = 0, height = 18\<rparr>,
      caretAt 64 \<lparr>line = 0, ch = 1\<rparr> \<lparr>left = 10, top' = 0, height = 18\<rparr>,
      caretAt 80 \<lparr>line = 0, ch = 1\<rparr> \<lparr>left = 10, top' = 0, height = 18\<rparr>] (newPlugin 0))
     = [Some (1 / 5), Some (1 / 4), Some (1 / 3), Some (1 / 2), Some 1]
   \<and> prevIconCoords (snd (ticks
     [caretAt 16 \<lparr>line = 0, ch = 1\<rparr> \<lparr>left = 10, top' = 0, height = 18\<rparr>,
      caretAt 32 \<lparr>line = 0, ch = 1\<rparr> \<lparr>left = 10, top' = 0, height = 18\<rparr>,
      caretAt 48 \<lparr>line = 0, ch = 1\<rparr> \<lparr>left = 10, top' = 0, height = 18\<rparr>,
      caretAt 64 \<lparr>line = 0, ch = 1\<rparr> \<lparr>left = 10, top' = 0, height = 18\<rparr>,
      caretAt 80 \<lparr>line = 0, ch = 1\<rparr> \<lparr>left = 10, top' = 0, height = 18\<rparr>] (newPlugin 0)))
     = Some \<lparr>left = 10, top' = 0\<rparr>"
proof -
  have a: "prevCursorPos (newPlugin 0) = Some \<lparr>line = 0, ch = 0\<rparr>"
    and b: "top' (prevCursorCoords (newPlugin 0)) = 0"
    and c: "prevIconCoords (newPlugin 0) = Some \<lparr>left = 0, top' = 0\<rparr>"
    and d: "characterMovementTime (settings (newPlugin 0)) = 80"
    and e: "prevFrameTime (newPlugin 0) = 0"
    by (simp_all add: newPlugin_def DEFAULT_SETTINGS_def)
  have f: "\<lparr>line = 0, ch = 1\<rparr> = \<lparr>line = 0, ch = 0\<rparr>\<lparr>ch := ch \<lparr>line = 0, ch = 0\<rparr> + 1\<rparr>"
    and g: "\<lparr>left = 10, top' = 0, height = 18\<rparr> = \<lparr>left = 0 + 10, top' = 0, height = 18::real\<rparr>"
    by simp_all
  have k: "[caretAt 16 \<lparr>line = 0, ch = 1\<rparr> \<lparr>left = 10, top' = 0, height = 18\<rparr>,
      caretAt 32 \<lparr>line = 0, ch = 1\<rparr> \<lparr>left = 10, top' = 0, height = 18\<rparr>,
      caretAt 48 \<lparr>line = 0, ch = 1\<rparr> \<lparr>left = 10, top' = 0, height = 18\<rparr>,
      caretAt 64 \<lparr>line = 0, ch = 1\<rparr> \<lparr>left = 10, top' = 0, height = 18\<rparr>,
      caretAt 80 \<lparr>line = 0, ch = 1\<rparr> \<lparr>left = 10, top' = 0, height = 18\<rparr>]
    = [caretAt (0 + 16) \<lparr>line = 0, ch = 1\<rparr> \<lparr>left = 10, top' = 0, height = 18\<rparr>,
      caretAt (0 + 32) \<lparr>line = 0, ch = 1\<rparr> \<lparr>left = 10, top' = 0, height = 18\<rparr>,
      caretAt (0 + 48) \<lparr>line = 0, ch = 1\<rparr> \<lparr>left = 10, top' = 0, height = 18\<rparr>,
      caretAt (0 + 64) \<lparr>line = 0, ch = 1\<rparr> \<lparr>left = 10, top' = 0, height = 18\<rparr>,
      caretAt (0 + 80) \<lparr>line = 0, ch = 1\<rparr> \<lparr>left = 10, top' = 0, height = 18\<rparr>]"
    by simp
  note t = smooth_step_scenario [OF a b c d e f g k]
  show ?thesis
    using t [THEN conjunct1] t [THEN conjunct2, THEN conjunct2] by simp
qed

section \<open>Settings and plugin load\<close>

text \<open>
  C7, as amended. With nothing stored, the loaded settings are the defaults of the
  code: blink period 1.2 s, blink delay 0, move time 80 ms, cursor width 1 and the
  cursor colour \<open>#ffffff\<close>. From a stored record every key that is present is taken, and
  every missing key has its default.
\<close>

theorem loadSettings_defaults:
  "settings (loadSettings None s) =
     \<lparr>blinkSpeed = 1.2, blinkDelay = 0, characterMovementTime = 80, cursorWidth = 1,
      cursorColor = Some ''#ffffff''\<rparr>
   \<and> settings (loadSettings (Some d) s) =
     \<lparr>blinkSpeed = (case stored_blinkSpeed d of None \<Rightarrow> 1.2 | Some v \<Rightarrow> v),
      blinkDelay = (case stored_blinkDelay d of None \<Rightarrow> 0 | Some v \<Rightarrow> v),
      characterMovementTime =
        (case stored_characterMovementTime d of None \<Rightarrow> 80 | Some v \<Rightarrow> v),
      cursorWidth = (case stored_cursorWidth d of None \<Rightarrow> 1 | Some v \<Rightarrow> v),
      cursorColor = (case stored_cursorColor d of None \<Rightarrow> Some ''#ffffff'' | Some v \<Rightarrow> v)\<rparr>"
  by (simp add: loadSettings_def Object_assign_def DEFAULT_SETTINGS_def split: option.split)

text \<open>A stored record that holds only a blink period of 2 s.\<close>

theorem loadSettings_defaults_witness:
  "settings (loadSettings
       (Some \<lparr>stored_blinkSpeed = Some 2, stored_blinkDelay = None,
              stored_characterMovementTime = None, stored_cursorWidth = None,
              stored_cursorColor = None\<rparr>) (newPlugin 0))
     = \<lparr>blinkSpeed = 2, blinkDelay = 0, characterMovementTime = 80, cursorWidth = 1,
        cursorColor = Some ''#ffffff''\<rparr>"
  using loadSettings_defaults
    [of "newPlugin 0" "\<lparr>stored_blinkSpeed = Some 2, stored_blinkDelay = None,
              stored_characterMovementTime = None, stored_cursorWidth = None,
              stored_cursorColor = None\<rparr>"]
  by simp

text \<open>
  C7 as stated fails in its last field: with nothing stored the loaded cursor colour is
  the string \<open>#ffffff\<close> of \<open>DEFAULT_SETTINGS\<close>, not absent.
\<close>

theorem loadSettings_cursorColor_counterexample:
  "cursorColor (settings (loadSettings None (newPlugin 0))) = Some ''#ffffff''
   \<and> cursorColor (settings (loadSettings None (newPlugin 0))) \<noteq> None"
  by (simp add: loadSettings_def Object_assign_def DEFAULT_SETTINGS_def)

text \<open>
  C10. \<open>changeCursorColour\<close> without an argument sets the overlay colour to
  \<open>#ffffff\<close> when the body has the class \<open>theme-dark\<close> and to \<open>#000000\<close> otherwise; it
  does not depend on the settings, which it leaves as they are. After \<open>onload\<close> the
  settings are the stored ones merged over the defaults, and the overlay colour is
  still that of the theme, whatever colour was stored.
\<close>

theorem onload_ignores_cursorColor:
  "cursor_color (cursorElement (changeCursorColour cls None s))
     = Some (if ''theme-dark'' \<in> set cls then ''#ffffff'' else ''#000000'')
   \<and> changeCursorColour cls None (s\<lparr>settings := st\<rparr>)
     = (changeCursorColour cls None s)\<lparr>settings := st\<rparr>
   \<and> settings (onload loadData cls f s) = Object_assign DEFAULT_SETTINGS loadData
   \<and> cursor_color (cursorElement (onload loadData cls f s))
     = Some (if ''theme-dark'' \<in> set cls then ''#ffffff'' else ''#000000'')"
  by (simp add: onload_def Let_def updateCursor_cursor_color updateCursor_settings
      changeCursorColour_def requestAnimationFrame_def loadSettings_def)

text \<open>A stored colour \<open>#ff0000\<close> on a light theme: the settings hold it after
  \<open>onload\<close>, and the overlay is black.\<close>

theorem onload_ignores_cursorColor_witness:
  "cursorColor (settings (onload
       (Some \<lparr>stored_blinkSpeed = None, stored_blinkDelay = None,
              stored_characterMovementTime = None, stored_cursorWidth = None,
              stored_cursorColor = Some (Some ''#ff0000'')\<rparr>)
       [''theme-light'']
       (caretAt 16 \<lparr>line = 0, ch = 0\<rparr> \<lparr>left = 0, top' = 0, height = 18\<rparr>) (newPlugin 0)))
     = Some ''#ff0000''
   \<and> cursor_color (cursorElement (onload
       (Some \<lparr>stored_blinkSpeed = None, stored_blinkDelay = None,
              stored_characterMovementTime = None, stored_cursorWidth = None,
              stored_cursorColor = Some (Some ''#ff0000'')\<rparr>)
       [''theme-light'']
       (caretAt 16 \<lparr>line = 0, ch = 0\<rparr> \<lparr>left = 0, top' = 0, height = 18\<rparr>) (newPlugin 0)))
     = Some ''#000000''"
proof -
  note t = onload_ignores_cursorColor
    [of "[''theme-light'']" "newPlugin 0" DEFAULT_SETTINGS
      "Some \<lparr>stored_blinkSpeed = None, stored_blinkDelay = None,
              stored_characterMovementTime = None, stored_cursorWidth = None,
              stored_cursorColor = Some (Some ''#ff0000'')\<rparr>"
      "caretAt 16 \<lparr>line = 0, ch = 0\<rparr> \<lparr>left = 0, top' = 0, height = 18\<rparr>"]
  show ?thesis
    using t [THEN conjunct2, THEN conjunct2]
    by (simp add: Object_assign_def)
qed

end
